theory Spec2Isabelle
  imports Main "HOL-Library.AList"
begin

section \<open>The azurerm\_mssql\_job\_credential resource\<close>

text \<open>
  A shallow embedding of the four CRUD entry points of the resource
  (\<^verbatim>\<open>resourceMsSqlJobCredentialCreate\<close>, \<^verbatim>\<open>...Update\<close>, \<^verbatim>\<open>...Read\<close>,
  \<^verbatim>\<open>...Delete\<close>).  Each Go function takes the resource data \<^verbatim>\<open>d\<close> and the provider
  handle \<^verbatim>\<open>meta\<close>, mutates \<^verbatim>\<open>d\<close>, talks to the remote service through the job
  credentials client and returns an \<^verbatim>\<open>error\<close>.  Here every function takes the resource
  data and the state of the outside world and returns the error (\<open>None\<close> for \<^verbatim>\<open>nil\<close>)
  together with the new resource data and the new world.

  Logging and the deadline plumbing (\<^verbatim>\<open>log.Printf\<close>, \<^verbatim>\<open>timeouts.ForCreate\<close> and
  its siblings, \<^verbatim>\<open>defer cancel()\<close>) carry no data of the functions and are left out.
\<close>

subsection \<open>Resource identifiers\<close>

record JobAgentId =
  SubscriptionId :: string
  ResourceGroupName :: string
  ServerName :: string
  JobAgentName :: string

record CredentialId = JobAgentId +
  CredentialName :: string

definition NewJobAgentID :: "string \<Rightarrow> string \<Rightarrow> string \<Rightarrow> string \<Rightarrow> JobAgentId" where
  "NewJobAgentID subscriptionId resourceGroupName serverName jobAgentName =
     \<lparr>SubscriptionId = subscriptionId, ResourceGroupName = resourceGroupName,
      ServerName = serverName, JobAgentName = jobAgentName\<rparr>"

definition NewCredentialID ::
  "string \<Rightarrow> string \<Rightarrow> string \<Rightarrow> string \<Rightarrow> string \<Rightarrow> CredentialId" where
  "NewCredentialID subscriptionId resourceGroupName serverName jobAgentName credentialName =
     \<lparr>SubscriptionId = subscriptionId, ResourceGroupName = resourceGroupName,
      ServerName = serverName, JobAgentName = jobAgentName,
      CredentialName = credentialName\<rparr>"

subsection \<open>The remote model and the client's responses\<close>

text \<open>
  \<^verbatim>\<open>jobcredentials.JobCredential\<close> and \<^verbatim>\<open>JobCredentialProperties\<close>: pointer fields are
  options, \<open>None\<close> for \<^verbatim>\<open>nil\<close>.  The resource functions touch \<^verbatim>\<open>Name\<close> and
  \<^verbatim>\<open>Properties\<close> only; \<open>Id_jc\<close> and \<open>Type_jc\<close> are what a fetched model may carry
  besides, and Update sends them back as fetched.
\<close>

record JobCredentialProperties =
  Username :: string
  Password :: string

record JobCredential =
  Id_jc :: "string option"
  Name :: "string option"
  Properties :: "JobCredentialProperties option"
  Type_jc :: "string option"

text \<open>An \<^verbatim>\<open>error\<close> value made by a library (the identifier parsers, the client, the
  write-only accessor) is opaque to the resource functions: its message.\<close>

type_synonym lib_error = string

record http_Response =
  StatusCode :: int

record GetOperationResponse =
  HttpResponse :: "http_Response option"
  Model :: "JobCredential option"

text \<open>\<^verbatim>\<open>response.WasNotFound\<close> of go-azure-helpers: a non-nil response with status 404.\<close>

definition WasNotFound :: "http_Response option \<Rightarrow> bool" where
  "WasNotFound resp = (case resp of None \<Rightarrow> False | Some r \<Rightarrow> StatusCode r = 404)"

text \<open>
  The job credentials client is generated SDK code outside the resource file, so its
  behaviour is a parameter: three operations over a remote state of any type \<open>'r\<close>, each
  returning its Go results and the new remote state.
\<close>

record 'r JobCredentialsClient =
  Get :: "CredentialId \<Rightarrow> 'r \<Rightarrow> (GetOperationResponse \<times> lib_error option) \<times> 'r"
  CreateOrUpdate :: "CredentialId \<Rightarrow> JobCredential \<Rightarrow> 'r \<Rightarrow> lib_error option \<times> 'r"
  Delete :: "CredentialId \<Rightarrow> 'r \<Rightarrow> lib_error option \<times> 'r"

text \<open>
  What the functions reach through \<^verbatim>\<open>meta\<close> and through the imported identifier
  package: the client, the two parsers and the two \<^verbatim>\<open>ID()\<close> formatters.  The parsers
  and formatters are library code too and are parameters as well.
\<close>

record 'r Client =
  JobCredentialsClient :: "'r JobCredentialsClient"
  ParseJobAgentID :: "string \<Rightarrow> lib_error + JobAgentId"
  ParseCredentialID :: "string \<Rightarrow> lib_error + CredentialId"
  CredentialId_ID :: "CredentialId \<Rightarrow> string"
  JobAgentId_ID :: "JobAgentId \<Rightarrow> string"

text \<open>The world outside the resource data: the remote state, and the client calls made
  so far, oldest first.\<close>

datatype call =
    GetCall CredentialId
  | CreateOrUpdateCall CredentialId JobCredential
  | DeleteCall CredentialId

record 'r world =
  remote :: 'r
  calls :: "call list"

definition client_Get ::
  "'r JobCredentialsClient \<Rightarrow> CredentialId \<Rightarrow> 'r world
     \<Rightarrow> (GetOperationResponse \<times> lib_error option) \<times> 'r world" where
  "client_Get c cid w =
     (case Get c cid (remote w) of
        (res, r') \<Rightarrow> (res, \<lparr>remote = r', calls = calls w @ [GetCall cid]\<rparr>))"

definition client_CreateOrUpdate ::
  "'r JobCredentialsClient \<Rightarrow> CredentialId \<Rightarrow> JobCredential \<Rightarrow> 'r world
     \<Rightarrow> lib_error option \<times> 'r world" where
  "client_CreateOrUpdate c cid payload w =
     (case CreateOrUpdate c cid payload (remote w) of
        (err, r') \<Rightarrow> (err, \<lparr>remote = r', calls = calls w @ [CreateOrUpdateCall cid payload]\<rparr>))"

definition client_Delete ::
  "'r JobCredentialsClient \<Rightarrow> CredentialId \<Rightarrow> 'r world \<Rightarrow> lib_error option \<times> 'r world" where
  "client_Delete c cid w =
     (case Delete c cid (remote w) of
        (err, r') \<Rightarrow> (err, \<lparr>remote = r', calls = calls w @ [DeleteCall cid]\<rparr>))"

subsection \<open>The resource data\<close>

text \<open>
  \<^verbatim>\<open>*pluginsdk.ResourceData\<close>, with one typed field for each attribute of the schema
  that is kept in state (\<^verbatim>\<open>d.Get(k).(string)\<close> reads it, \<^verbatim>\<open>d.Set(k, v)\<close> writes it),
  the stored id (\<^verbatim>\<open>d.Id()\<close>, \<^verbatim>\<open>d.SetId\<close>), the change flags (\<^verbatim>\<open>d.HasChange\<close>) and
  what \<^verbatim>\<open>pluginsdk.GetWriteOnly\<close> gives for a write-only attribute: an error, or a value
  that is null or a string.
\<close>

datatype cty_Value = CtyNull | CtyString string

record ResourceData =
  Id_d :: string
  name :: string
  job_agent_id :: string
  username :: string
  password :: string
  password_wo_version :: int
  HasChange :: "string \<Rightarrow> bool"
  GetWriteOnly :: "string \<Rightarrow> lib_error + cty_Value"

definition SetId :: "ResourceData \<Rightarrow> string \<Rightarrow> ResourceData" where
  "SetId d v = d\<lparr>Id_d := v\<rparr>"

subsection \<open>Errors\<close>

text \<open>
  One constructor for each way the functions make an error: \<open>Passthrough\<close> for
  \<^verbatim>\<open>return err\<close>, \<open>ImportAsExistsError\<close> for \<^verbatim>\<open>tf.ImportAsExistsError\<close>, and one for
  each \<^verbatim>\<open>fmt.Errorf\<close>, holding what the message is formatted from.
\<close>

datatype error =
    Passthrough lib_error
  | CheckingPresence CredentialId lib_error
  | ImportAsExistsError string string
  | CreatingError CredentialId lib_error
  | RetrievingError CredentialId lib_error
  | ModelWasNil CredentialId
  | PropertiesWasNil CredentialId
  | UpdatingError CredentialId lib_error
  | ReadingError CredentialId lib_error
  | DeletingError CredentialId lib_error

subsection \<open>Read\<close>

definition resourceMsSqlJobCredentialRead ::
  "'r Client \<Rightarrow> ResourceData \<Rightarrow> 'r world \<Rightarrow> error option \<times> ResourceData \<times> 'r world" where
  "resourceMsSqlJobCredentialRead m d w =
     (case ParseCredentialID m (Id_d d) of
        Inl err \<Rightarrow> (Some (Passthrough err), d, w)
      | Inr cid \<Rightarrow>
          (case client_Get (JobCredentialsClient m) cid w of
             ((resp, err), w1) \<Rightarrow>
               (case err of
                  Some e \<Rightarrow>
                    if WasNotFound (HttpResponse resp) then (None, SetId d [], w1)
                    else (Some (ReadingError cid e), d, w1)
                | None \<Rightarrow>
                    let d1 = d\<lparr>name := CredentialName cid\<rparr>;
                        jobAgentId = NewJobAgentID (SubscriptionId cid) (ResourceGroupName cid)
                                       (ServerName cid) (JobAgentName cid);
                        d2 = d1\<lparr>job_agent_id := JobAgentId_ID m jobAgentId\<rparr>;
                        d3 = (case Model resp of
                                None \<Rightarrow> d2
                              | Some model \<Rightarrow>
                                  (case Properties model of
                                     None \<Rightarrow> d2
                                   | Some props \<Rightarrow> d2\<lparr>username := Username props\<rparr>));
                        d4 = d3\<lparr>password_wo_version := password_wo_version d3\<rparr>
                    in (None, d4, w1))))"

subsection \<open>Create\<close>

definition resourceMsSqlJobCredentialCreate ::
  "'r Client \<Rightarrow> ResourceData \<Rightarrow> 'r world \<Rightarrow> error option \<times> ResourceData \<times> 'r world" where
  "resourceMsSqlJobCredentialCreate m d w =
     (case ParseJobAgentID m (job_agent_id d) of
        Inl err \<Rightarrow> (Some (Passthrough err), d, w)
      | Inr jaId \<Rightarrow>
          let jobCredentialId = NewCredentialID (SubscriptionId jaId) (ResourceGroupName jaId)
                                  (ServerName jaId) (JobAgentName jaId) (name d)
          in (case client_Get (JobCredentialsClient m) jobCredentialId w of
                ((existing, err), w1) \<Rightarrow>
                  if err \<noteq> None \<and> \<not> WasNotFound (HttpResponse existing)
                  then (Some (CheckingPresence jobCredentialId (the err)), d, w1)
                  else if \<not> WasNotFound (HttpResponse existing)
                  then (Some (ImportAsExistsError ''azurerm_mssql_job_credential''
                                (CredentialId_ID m jobCredentialId)), d, w1)
                  else
                    (case GetWriteOnly d ''password_wo'' of
                       Inl err \<Rightarrow> (Some (Passthrough err), d, w1)
                     | Inr woPassword \<Rightarrow>
                         let password0 = (case woPassword of
                                            CtyNull \<Rightarrow> password d
                                          | CtyString s \<Rightarrow> s);
                             jobCredential =
                               \<lparr>Id_jc = None,
                                Name = Some (CredentialName jobCredentialId),
                                Properties = Some \<lparr>Username = username d,
                                                   Password = password0\<rparr>,
                                Type_jc = None\<rparr>
                         in (case client_CreateOrUpdate (JobCredentialsClient m)
                                    jobCredentialId jobCredential w1 of
                               (Some e, w2) \<Rightarrow> (Some (CreatingError jobCredentialId e), d, w2)
                             | (None, w2) \<Rightarrow>
                                 resourceMsSqlJobCredentialRead m
                                   (SetId d (CredentialId_ID m jobCredentialId)) w2))))"

subsection \<open>Update\<close>

definition resourceMsSqlJobCredentialUpdate ::
  "'r Client \<Rightarrow> ResourceData \<Rightarrow> 'r world \<Rightarrow> error option \<times> ResourceData \<times> 'r world" where
  "resourceMsSqlJobCredentialUpdate m d w =
     (case ParseJobAgentID m (job_agent_id d) of
        Inl err \<Rightarrow> (Some (Passthrough err), d, w)
      | Inr jaId \<Rightarrow>
          let jobCredentialId = NewCredentialID (SubscriptionId jaId) (ResourceGroupName jaId)
                                  (ServerName jaId) (JobAgentName jaId) (name d)
          in (case client_Get (JobCredentialsClient m) jobCredentialId w of
                ((existing, err), w1) \<Rightarrow>
                  (case err of
                     Some e \<Rightarrow> (Some (RetrievingError jobCredentialId e), d, w1)
                   | None \<Rightarrow>
                       (case Model existing of
                          None \<Rightarrow> (Some (ModelWasNil jobCredentialId), d, w1)
                        | Some model \<Rightarrow>
                            (case Properties model of
                               None \<Rightarrow> (Some (PropertiesWasNil jobCredentialId), d, w1)
                             | Some props \<Rightarrow>
                                 let props1 = (if HasChange d ''username''
                                               then props\<lparr>Username := username d\<rparr> else props);
                                     props2 = (if HasChange d ''password''
                                               then props1\<lparr>Password := password d\<rparr> else props1)
                                 in (case (if HasChange d ''password_wo_version''
                                           then (case GetWriteOnly d ''password_wo'' of
                                                   Inl err \<Rightarrow> Inl err
                                                 | Inr CtyNull \<Rightarrow> Inr props2
                                                 | Inr (CtyString s) \<Rightarrow>
                                                     Inr (props2\<lparr>Password := s\<rparr>))
                                           else Inr props2) of
                                       Inl err \<Rightarrow> (Some (Passthrough err), d, w1)
                                     | Inr props3 \<Rightarrow>
                                         (case client_CreateOrUpdate (JobCredentialsClient m)
                                                jobCredentialId
                                                (model\<lparr>Properties := Some props3\<rparr>) w1 of
                                            (Some e, w2) \<Rightarrow>
                                              (Some (UpdatingError jobCredentialId e), d, w2)
                                          | (None, w2) \<Rightarrow>
                                              resourceMsSqlJobCredentialRead m d w2)))))))"

subsection \<open>Delete\<close>

definition resourceMsSqlJobCredentialDelete ::
  "'r Client \<Rightarrow> ResourceData \<Rightarrow> 'r world \<Rightarrow> error option \<times> ResourceData \<times> 'r world" where
  "resourceMsSqlJobCredentialDelete m d w =
     (case ParseCredentialID m (Id_d d) of
        Inl err \<Rightarrow> (Some (Passthrough err), d, w)
      | Inr cid \<Rightarrow>
          (case client_Delete (JobCredentialsClient m) cid w of
             (Some e, w1) \<Rightarrow> (Some (DeletingError cid e), d, w1)
           | (None, w1) \<Rightarrow> (None, d, w1)))"

subsection \<open>Reading the call log\<close>

text \<open>The payloads handed to \<^verbatim>\<open>CreateOrUpdate\<close> in a call log, oldest first.\<close>

fun sent_payloads :: "call list \<Rightarrow> JobCredential list" where
  "sent_payloads [] = []"
| "sent_payloads (CreateOrUpdateCall cid p # cs) = p # sent_payloads cs"
| "sent_payloads (GetCall cid # cs) = sent_payloads cs"
| "sent_payloads (DeleteCall cid # cs) = sent_payloads cs"

text \<open>The password of a payload, and the passwords sent in a call log.\<close>

definition payload_password :: "JobCredential \<Rightarrow> string option" where
  "payload_password p = map_option Password (Properties p)"

definition sent_passwords :: "call list \<Rightarrow> string option list" where
  "sent_passwords cs = map payload_password (sent_payloads cs)"

text \<open>The credential identifier Create and Update build from the parsed parent and the
  \<^verbatim>\<open>name\<close> attribute.\<close>

abbreviation credential_of :: "JobAgentId \<Rightarrow> string \<Rightarrow> CredentialId" where
  "credential_of jaId nm \<equiv>
     NewCredentialID (SubscriptionId jaId) (ResourceGroupName jaId) (ServerName jaId)
       (JobAgentName jaId) nm"

subsection \<open>The remote store of the specification\<close>

text \<open>
  Modelled from the spec: the behaviour of the RemoteCredentialClient, whose code is not
  part of the resource file.  The spec gives it the capability set
  \<^verbatim>\<open>Get(id) -> (object|absent, err)\<close>, \<^verbatim>\<open>CreateOrUpdate(id, payload) -> (ack, err)\<close>,
  \<^verbatim>\<open>Delete(id) -> (ack, err)\<close>, calls create-or-update an "idempotent upsert on the
  remote store keyed by identifier", and says of the password that it "is never read
  back, since it is write-only on the remote side".  So a fetched object is the stored
  one with its password withheld; \<^verbatim>\<open>Password\<close> is a plain string of the model, and a
  response that carries none leaves it empty.
\<close>

definition withhold_password :: "JobCredential \<Rightarrow> JobCredential" where
  "withhold_password jc =
     jc\<lparr>Properties := map_option (\<lambda>props. props\<lparr>Password := []\<rparr>) (Properties jc)\<rparr>"

text \<open>
  Modelled from the spec: a client is the spec's remote store, seen through \<open>stored\<close>,
  when a fetch changes no object and, when it reports no error, returns the object under
  the identifier with its password withheld, and when a successful create-or-update puts
  the payload under the identifier and a failed one changes no object.  Nothing is asked
  of \<^verbatim>\<open>Delete\<close>, nor of when the calls fail.
\<close>

definition write_only_store ::
  "'r JobCredentialsClient \<Rightarrow> ('r \<Rightarrow> CredentialId \<rightharpoonup> JobCredential) \<Rightarrow> bool" where
  "write_only_store c stored \<longleftrightarrow>
     (\<forall>cid r resp err r'. Get c cid r = ((resp, err), r') \<longrightarrow>
        stored r' = stored r \<and>
        (err = None \<longrightarrow> Model resp = map_option withhold_password (stored r cid))) \<and>
     (\<forall>cid p r err r'. CreateOrUpdate c cid p r = (err, r') \<longrightarrow>
        stored r' = (if err = None then (stored r)(cid \<mapsto> p) else stored r))"

text \<open>The password the remote store holds under an identifier, if there is an object
  with properties there.\<close>

definition stored_password ::
  "(CredentialId \<rightharpoonup> JobCredential) \<Rightarrow> CredentialId \<Rightarrow> string option" where
  "stored_password objs cid =
     (case objs cid of
        None \<Rightarrow> None
      | Some jc \<Rightarrow> map_option Password (Properties jc))"

subsection \<open>A concrete service\<close>

text \<open>
  Modelled from the spec: one instance of the parameters, for running the functions on
  concrete inputs.  The remote state is a table of objects and a switch that makes every
  call fail; an absent object is reported with status 404 and an error, by \<^verbatim>\<open>Get\<close> and
  by \<^verbatim>\<open>Delete\<close> (the spec: "any failure (including not-found)").  The identifier is
  the spec's "slash-delimited resource path embedding subscription/resource-group/server/
  job-agent/credential segments"; the fixed segments are those of the service's resource
  paths.  This \<^verbatim>\<open>Get\<close> returns the stored object whole, password included; the client
  that withholds the password, as the spec's remote does, follows it.
\<close>

record azure =
  objects :: "(CredentialId \<times> JobCredential) list"
  unavailable :: bool

definition azure_Get ::
  "CredentialId \<Rightarrow> azure \<Rightarrow> (GetOperationResponse \<times> lib_error option) \<times> azure" where
  "azure_Get cid r =
     (if unavailable r
      then ((\<lparr>HttpResponse = Some \<lparr>StatusCode = 503\<rparr>, Model = None\<rparr>,
             Some ''service unavailable''), r)
      else (case map_of (objects r) cid of
              None \<Rightarrow> ((\<lparr>HttpResponse = Some \<lparr>StatusCode = 404\<rparr>, Model = None\<rparr>,
                         Some ''not found''), r)
            | Some jc \<Rightarrow> ((\<lparr>HttpResponse = Some \<lparr>StatusCode = 200\<rparr>, Model = Some jc\<rparr>,
                            None), r)))"

definition azure_CreateOrUpdate ::
  "CredentialId \<Rightarrow> JobCredential \<Rightarrow> azure \<Rightarrow> lib_error option \<times> azure" where
  "azure_CreateOrUpdate cid p r =
     (if unavailable r then (Some ''service unavailable'', r)
      else (None, r\<lparr>objects := AList.update cid p (objects r)\<rparr>))"

definition azure_Delete :: "CredentialId \<Rightarrow> azure \<Rightarrow> lib_error option \<times> azure" where
  "azure_Delete cid r =
     (if unavailable r then (Some ''service unavailable'', r)
      else (case map_of (objects r) cid of
              None \<Rightarrow> (Some ''not found'', r)
            | Some jc \<Rightarrow> (None, r\<lparr>objects := AList.delete cid (objects r)\<rparr>)))"

definition azure_objects :: "azure \<Rightarrow> CredentialId \<rightharpoonup> JobCredential" where
  "azure_objects r = map_of (objects r)"

definition azure_client :: "azure JobCredentialsClient" where
  "azure_client =
     \<lparr>Get = azure_Get, CreateOrUpdate = azure_CreateOrUpdate, Delete = azure_Delete\<rparr>"

fun split_slash :: "string \<Rightarrow> string list" where
  "split_slash [] = [[]]"
| "split_slash (c # cs) =
     (if c = CHR ''/'' then [] # split_slash cs
      else (case split_slash cs of
              [] \<Rightarrow> [[c]]
            | s # ss \<Rightarrow> (c # s) # ss))"

definition job_agent_path :: "JobAgentId \<Rightarrow> string" where
  "job_agent_path a =
     ''/subscriptions/'' @ SubscriptionId a @ ''/resourceGroups/'' @ ResourceGroupName a @
     ''/providers/Microsoft.Sql/servers/'' @ ServerName a @ ''/jobAgents/'' @ JobAgentName a"

definition credential_path :: "CredentialId \<Rightarrow> string" where
  "credential_path c =
     ''/subscriptions/'' @ SubscriptionId c @ ''/resourceGroups/'' @ ResourceGroupName c @
     ''/providers/Microsoft.Sql/servers/'' @ ServerName c @ ''/jobAgents/'' @ JobAgentName c @
     ''/credentials/'' @ CredentialName c"

definition parse_job_agent_path :: "string \<Rightarrow> lib_error + JobAgentId" where
  "parse_job_agent_path input =
     (case split_slash input of
        [e, k1, sub, k2, rg, k3, ns, k4, srv, k5, ja] \<Rightarrow>
          if e = [] \<and> k1 = ''subscriptions'' \<and> k2 = ''resourceGroups'' \<and> k3 = ''providers'' \<and>
             ns = ''Microsoft.Sql'' \<and> k4 = ''servers'' \<and> k5 = ''jobAgents'' \<and>
             sub \<noteq> [] \<and> rg \<noteq> [] \<and> srv \<noteq> [] \<and> ja \<noteq> []
          then Inr (NewJobAgentID sub rg srv ja)
          else Inl ''parsing the job agent id''
      | _ \<Rightarrow> Inl ''parsing the job agent id'')"

definition parse_credential_path :: "string \<Rightarrow> lib_error + CredentialId" where
  "parse_credential_path input =
     (case split_slash input of
        [e, k1, sub, k2, rg, k3, ns, k4, srv, k5, ja, k6, cred] \<Rightarrow>
          if e = [] \<and> k1 = ''subscriptions'' \<and> k2 = ''resourceGroups'' \<and> k3 = ''providers'' \<and>
             ns = ''Microsoft.Sql'' \<and> k4 = ''servers'' \<and> k5 = ''jobAgents'' \<and>
             k6 = ''credentials'' \<and>
             sub \<noteq> [] \<and> rg \<noteq> [] \<and> srv \<noteq> [] \<and> ja \<noteq> [] \<and> cred \<noteq> []
          then Inr (NewCredentialID sub rg srv ja cred)
          else Inl ''parsing the credential id''
      | _ \<Rightarrow> Inl ''parsing the credential id'')"

definition provider :: "azure Client" where
  "provider =
     \<lparr>JobCredentialsClient = azure_client,
      ParseJobAgentID = parse_job_agent_path,
      ParseCredentialID = parse_credential_path,
      CredentialId_ID = credential_path,
      JobAgentId_ID = job_agent_path\<rparr>"

text \<open>
  Modelled from the spec: the same service with the password write-only on the remote
  side.  It stores what it is sent, and its \<^verbatim>\<open>Get\<close> answers with the stored object less
  the password.
\<close>

definition azure_wo_Get ::
  "CredentialId \<Rightarrow> azure \<Rightarrow> (GetOperationResponse \<times> lib_error option) \<times> azure" where
  "azure_wo_Get cid r =
     (case azure_Get cid r of
        ((resp, err), r') \<Rightarrow>
          ((resp\<lparr>Model := map_option withhold_password (Model resp)\<rparr>, err), r'))"

definition azure_wo_client :: "azure JobCredentialsClient" where
  "azure_wo_client =
     \<lparr>Get = azure_wo_Get, CreateOrUpdate = azure_CreateOrUpdate, Delete = azure_Delete\<rparr>"

definition provider_wo :: "azure Client" where
  "provider_wo = provider\<lparr>JobCredentialsClient := azure_wo_client\<rparr>"

text \<open>A job agent, a credential under it, and a configuration naming that credential.\<close>

definition agent1 :: JobAgentId where
  "agent1 = NewJobAgentID ''s'' ''g'' ''v'' ''a''"

definition cred1 :: CredentialId where
  "cred1 = NewCredentialID ''s'' ''g'' ''v'' ''a'' ''c''"

definition config1 :: ResourceData where
  "config1 =
     \<lparr>Id_d = credential_path cred1,
      name = ''c'',
      job_agent_id = job_agent_path agent1,
      username = ''bob'',
      password = ''plain'',
      password_wo_version = 0,
      HasChange = (\<lambda>k. False),
      GetWriteOnly = (\<lambda>k. Inr CtyNull)\<rparr>"

definition object1 :: JobCredential where
  "object1 =
     \<lparr>Id_jc = Some (credential_path cred1), Name = Some ''c'',
      Properties = Some \<lparr>Username = ''alice'', Password = ''old''\<rparr>,
      Type_jc = Some ''Microsoft.Sql/servers/jobAgents/credentials''\<rparr>"

definition world0 :: "azure world" where
  "world0 = \<lparr>remote = \<lparr>objects = [], unavailable = False\<rparr>, calls = []\<rparr>"

definition world1 :: "azure world" where
  "world1 = \<lparr>remote = \<lparr>objects = [(cred1, object1)], unavailable = False\<rparr>, calls = []\<rparr>"

definition world_down :: "azure world" where
  "world_down = \<lparr>remote = \<lparr>objects = [(cred1, object1)], unavailable = True\<rparr>, calls = []\<rparr>"

definition config_bad :: ResourceData where
  "config_bad = config1\<lparr>Id_d := ''bogus'', job_agent_id := ''bogus''\<rparr>"

definition config_wo :: ResourceData where
  "config_wo =
     config1\<lparr>password := [], password_wo_version := 2,
             HasChange := (\<lambda>k. k = ''password_wo_version''),
             GetWriteOnly := (\<lambda>k. Inr (CtyString ''old''))\<rparr>"

definition config_rename :: ResourceData where
  "config_rename = config1\<lparr>HasChange := (\<lambda>k. k = ''username'')\<rparr>"

definition config_switch :: ResourceData where
  "config_switch =
     config1\<lparr>HasChange := (\<lambda>k. k = ''password'' \<or> k = ''password_wo_version'')\<rparr>"

definition broken_write_only :: "string \<Rightarrow> lib_error + cty_Value" where
  "broken_write_only k = Inl ''no raw config''"

definition payload1 :: JobCredential where
  "payload1 =
     \<lparr>Id_jc = None, Name = Some ''c'',
      Properties = Some \<lparr>Username = ''bob'', Password = ''plain''\<rparr>,
      Type_jc = None\<rparr>"

definition world_bare :: "azure world" where
  "world_bare =
     \<lparr>remote = \<lparr>objects = [(cred1, object1\<lparr>Properties := None\<rparr>)], unavailable = False\<rparr>,
      calls = []\<rparr>"

definition config_drop :: ResourceData where
  "config_drop = config1\<lparr>HasChange := (\<lambda>k. k = ''password_wo_version'')\<rparr>"

section \<open>Properties\<close>

subsection \<open>The call log and the client\<close>

lemma sent_payloads_append: "sent_payloads (xs @ ys) = sent_payloads xs @ sent_payloads ys"
  by (induction xs rule: sent_payloads.induct) simp_all

lemma sent_passwords_append: "sent_passwords (xs @ ys) = sent_passwords xs @ sent_passwords ys"
  by (simp add: sent_passwords_def sent_payloads_append)

lemma sent_passwords_Get: "sent_passwords (cs @ [GetCall cid]) = sent_passwords cs"
  by (simp add: sent_passwords_def sent_payloads_append)

lemma sent_passwords_write:
  "sent_passwords (cs @ [GetCall cid, CreateOrUpdateCall cid' p]) =
     sent_passwords cs @ [payload_password p]"
  by (simp add: sent_passwords_def sent_payloads_append)

lemma client_Get_eq:
  "Get c cid (remote w) = (res, r1) \<Longrightarrow>
   client_Get c cid w = (res, \<lparr>remote = r1, calls = calls w @ [GetCall cid]\<rparr>)"
  by (simp add: client_Get_def)

lemma client_CreateOrUpdate_eq:
  "CreateOrUpdate c cid p (remote w) = (err, r1) \<Longrightarrow>
   client_CreateOrUpdate c cid p w = (err, \<lparr>remote = r1, calls = calls w @ [CreateOrUpdateCall cid p]\<rparr>)"
  by (simp add: client_CreateOrUpdate_def)

lemma client_Delete_eq:
  "Delete c cid (remote w) = (err, r1) \<Longrightarrow>
   client_Delete c cid w = (err, \<lparr>remote = r1, calls = calls w @ [DeleteCall cid]\<rparr>)"
  by (simp add: client_Delete_def)


subsection \<open>The paths through Read\<close>

lemma Read_parse_error:
  "ParseCredentialID m (Id_d d) = Inl err \<Longrightarrow>
   resourceMsSqlJobCredentialRead m d w = (Some (Passthrough err), d, w)"
  by (simp add: resourceMsSqlJobCredentialRead_def)

lemma Read_fetched:
  assumes "ParseCredentialID m (Id_d d) = Inr cid"
    and "Get (JobCredentialsClient m) cid (remote w) = ((resp, err), r1)"
  shows "resourceMsSqlJobCredentialRead m d w =
     (let w1 = \<lparr>remote = r1, calls = calls w @ [GetCall cid]\<rparr> in
      case err of
        Some e \<Rightarrow> if WasNotFound (HttpResponse resp) then (None, d\<lparr>Id_d := []\<rparr>, w1)
                  else (Some (ReadingError cid e), d, w1)
      | None \<Rightarrow>
          (None,
           d\<lparr>name := CredentialName cid,
             job_agent_id := JobAgentId_ID m (NewJobAgentID (SubscriptionId cid)
                               (ResourceGroupName cid) (ServerName cid) (JobAgentName cid)),
             username := (case Model resp of None \<Rightarrow> username d
                          | Some model \<Rightarrow> (case Properties model of None \<Rightarrow> username d
                                            | Some props \<Rightarrow> Username props))\<rparr>, w1))"
  using assms
  by (simp add: resourceMsSqlJobCredentialRead_def client_Get_eq SetId_def Let_def
           split: option.splits)

lemma Read_sent_payloads:
  "resourceMsSqlJobCredentialRead m d w = (res, d', w') \<Longrightarrow>
   sent_payloads (calls w') = sent_payloads (calls w)"
  by (auto simp: resourceMsSqlJobCredentialRead_def client_Get_def SetId_def Let_def
        sent_payloads_append
      split: sum.splits prod.splits option.splits if_splits)

lemma Read_sent_passwords:
  "resourceMsSqlJobCredentialRead m d w = (res, d', w') \<Longrightarrow>
   sent_passwords (calls w') = sent_passwords (calls w)"
  by (simp add: sent_passwords_def Read_sent_payloads)

lemma Read_errors:
  "resourceMsSqlJobCredentialRead m d w = (Some err, d', w') \<Longrightarrow>
   (\<exists>e. err = Passthrough e) \<or> (\<exists>cid e. err = ReadingError cid e)"
  by (auto simp: resourceMsSqlJobCredentialRead_def client_Get_def SetId_def Let_def
      split: sum.splits prod.splits option.splits if_splits)

lemma Read_frame:
  "resourceMsSqlJobCredentialRead m d w = (res, d', w') \<Longrightarrow>
   password d' = password d \<and> GetWriteOnly d' = GetWriteOnly d \<and> HasChange d' = HasChange d \<and>
   password_wo_version d' = password_wo_version d"
  by (auto simp: resourceMsSqlJobCredentialRead_def client_Get_def SetId_def Let_def
      split: sum.splits prod.splits option.splits if_splits)

lemma Read_GetWriteOnly:
  assumes "resourceMsSqlJobCredentialRead m d w = (res, d', w')"
  shows "resourceMsSqlJobCredentialRead m (d\<lparr>GetWriteOnly := g\<rparr>) w =
           (res, d'\<lparr>GetWriteOnly := g\<rparr>, w')"
proof (cases "ParseCredentialID m (Id_d d)")
  case (Inl e)
  then show ?thesis using assms by (simp add: resourceMsSqlJobCredentialRead_def)
next
  case (Inr cid)
  obtain resp err r1 where
    get: "Get (JobCredentialsClient m) cid (remote w) = ((resp, err), r1)"
    by (metis surj_pair)
  have p': "ParseCredentialID m (Id_d (d\<lparr>GetWriteOnly := g\<rparr>)) = Inr cid"
    using Inr by simp
  show ?thesis
    using assms Read_fetched [OF Inr get] Read_fetched [OF p' get]
    by (auto simp: Let_def split: option.splits if_splits)
qed

lemma Read_stored:
  assumes "write_only_store (JobCredentialsClient m) stored"
    and "resourceMsSqlJobCredentialRead m d w = (res, d', w')"
  shows "stored (remote w') = stored (remote w)"
proof (cases "ParseCredentialID m (Id_d d)")
  case (Inl e)
  then show ?thesis using assms(2) by (simp add: resourceMsSqlJobCredentialRead_def)
next
  case (Inr cid)
  obtain resp err r1 where
    get: "Get (JobCredentialsClient m) cid (remote w) = ((resp, err), r1)"
    by (metis surj_pair)
  have "stored r1 = stored (remote w)"
    using assms(1) get unfolding write_only_store_def by blast
  then show ?thesis
    using assms(2) Read_fetched [OF Inr get]
    by (auto simp: Let_def split: option.splits if_splits)
qed

lemma Read_username_stored:
  assumes store: "write_only_store (JobCredentialsClient m) stored"
    and parse: "ParseCredentialID m (Id_d d) = Inr cid"
    and found: "stored (remote w) cid = Some jc"
    and props: "Properties jc = Some props"
    and same: "Username props = username d"
    and run: "resourceMsSqlJobCredentialRead m d w = (res, d', w')"
  shows "username d' = username d \<and> stored (remote w') = stored (remote w)"
proof -
  obtain resp err r1 where
    get: "Get (JobCredentialsClient m) cid (remote w) = ((resp, err), r1)"
    by (metis surj_pair)
  have s1: "stored r1 = stored (remote w)"
    using store get unfolding write_only_store_def by blast
  have "err = None \<longrightarrow> Model resp = map_option withhold_password (stored (remote w) cid)"
    using store get unfolding write_only_store_def by blast
  then have mo: "err = None \<longrightarrow> Model resp = Some (withhold_password jc)"
    using found by simp
  have pr: "Properties (withhold_password jc) = Some (props\<lparr>Password := []\<rparr>)"
    using props by (simp add: withhold_password_def)
  show ?thesis
    using run Read_fetched [OF parse get] s1 mo pr same
    by (auto simp: Let_def split: option.splits if_splits)
qed

subsection \<open>The paths through Update\<close>

lemma Update_fetch_failed:
  assumes "ParseJobAgentID m (job_agent_id d) = Inr jaId"
    and "Get (JobCredentialsClient m) (credential_of jaId (name d)) (remote w) = ((existing, err), r1)"
    and "err \<noteq> None \<or> Model existing = None \<or>
         (\<exists>model. Model existing = Some model \<and> Properties model = None)"
  shows "resourceMsSqlJobCredentialUpdate m d w =
           (Some (case err of
                    Some e \<Rightarrow> RetrievingError (credential_of jaId (name d)) e
                  | None \<Rightarrow> (case Model existing of
                               None \<Rightarrow> ModelWasNil (credential_of jaId (name d))
                             | Some model \<Rightarrow> PropertiesWasNil (credential_of jaId (name d)))),
            d, \<lparr>remote = r1, calls = calls w @ [GetCall (credential_of jaId (name d))]\<rparr>)"
  using assms
  by (auto simp: resourceMsSqlJobCredentialUpdate_def client_Get_eq Let_def split: option.splits)

lemma Update_fetched:
  assumes "ParseJobAgentID m (job_agent_id d) = Inr jaId"
    and "Get (JobCredentialsClient m) (credential_of jaId (name d)) (remote w) =
           ((existing, None), r1)"
    and "Model existing = Some model"
    and "Properties model = Some props"
    and "HasChange d ''password_wo_version'' \<longrightarrow> GetWriteOnly d ''password_wo'' = Inr v"
    and "CreateOrUpdate (JobCredentialsClient m) (credential_of jaId (name d))
           (model\<lparr>Properties := Some
              \<lparr>Username = (if HasChange d ''username'' then username d else Username props),
               Password = (case (if HasChange d ''password_wo_version'' then v else CtyNull) of
                             CtyString s \<Rightarrow> s
                           | CtyNull \<Rightarrow> (if HasChange d ''password'' then password d
                                          else Password props))\<rparr>\<rparr>) r1 = (err2, r2)"
  shows "resourceMsSqlJobCredentialUpdate m d w =
     (let cid = credential_of jaId (name d);
          payload = model\<lparr>Properties := Some
              \<lparr>Username = (if HasChange d ''username'' then username d else Username props),
               Password = (case (if HasChange d ''password_wo_version'' then v else CtyNull) of
                             CtyString s \<Rightarrow> s
                           | CtyNull \<Rightarrow> (if HasChange d ''password'' then password d
                                          else Password props))\<rparr>\<rparr>;
          w2 = \<lparr>remote = r2, calls = calls w @ [GetCall cid, CreateOrUpdateCall cid payload]\<rparr>
      in case err2 of
           Some e \<Rightarrow> (Some (UpdatingError cid e), d, w2)
         | None \<Rightarrow> resourceMsSqlJobCredentialRead m d w2)"
  using assms
  by (cases v; cases props)
     (auto simp: resourceMsSqlJobCredentialUpdate_def client_Get_eq client_CreateOrUpdate_eq
        Let_def split: option.splits)

lemma Update_write_only_sent:
  assumes flag: "HasChange d ''password_wo_version''"
    and wo: "GetWriteOnly d ''password_wo'' = Inr (CtyString s)"
    and run: "resourceMsSqlJobCredentialUpdate m d w = (res, d', w')"
  shows "(case ParseJobAgentID m (job_agent_id d) of
            Inl e \<Rightarrow> sent_passwords (calls w') = sent_passwords (calls w)
          | Inr jaId \<Rightarrow>
              (case Get (JobCredentialsClient m) (credential_of jaId (name d)) (remote w) of
                 ((existing, err), r1) \<Rightarrow>
                   if err = None \<and> Model existing \<noteq> None \<and>
                      Properties (the (Model existing)) \<noteq> None
                   then sent_passwords (calls w') = sent_passwords (calls w) @ [Some s]
                   else sent_passwords (calls w') = sent_passwords (calls w)))"
proof (cases "ParseJobAgentID m (job_agent_id d)")
  case (Inl e)
  then show ?thesis using run by (simp add: resourceMsSqlJobCredentialUpdate_def)
next
  case (Inr jaId)
  let ?cid = "credential_of jaId (name d)"
  obtain existing err r1 where
    get: "Get (JobCredentialsClient m) ?cid (remote w) = ((existing, err), r1)"
    by (metis surj_pair)
  show ?thesis
  proof (cases "err \<noteq> None \<or> Model existing = None \<or>
         (\<exists>model. Model existing = Some model \<and> Properties model = None)")
    case True
    from Update_fetch_failed [OF Inr get True] run
    have "w' = \<lparr>remote = r1, calls = calls w @ [GetCall ?cid]\<rparr>" by simp
    then have "sent_passwords (calls w') = sent_passwords (calls w)"
      by (simp add: sent_passwords_Get)
    then show ?thesis using Inr get True by auto
  next
    case False
    then obtain model props where e: "err = None" and mo: "Model existing = Some model"
      and pr: "Properties model = Some props"
      by auto
    let ?payload = "model\<lparr>Properties := Some
              \<lparr>Username = (if HasChange d ''username'' then username d else Username props),
               Password = (case (if HasChange d ''password_wo_version'' then CtyString s
                                 else CtyNull) of
                             CtyString s \<Rightarrow> s
                           | CtyNull \<Rightarrow> (if HasChange d ''password'' then password d
                                          else Password props))\<rparr>\<rparr>"
    obtain err2 r2 where
      cou: "CreateOrUpdate (JobCredentialsClient m) ?cid ?payload r1 = (err2, r2)"
      by (metis surj_pair)
    have pp: "payload_password ?payload = Some s"
      using flag by (simp add: payload_password_def)
    have wo': "HasChange d ''password_wo_version'' \<longrightarrow>
               GetWriteOnly d ''password_wo'' = Inr (CtyString s)"
      using wo by simp
    note eq = Update_fetched [OF Inr get [unfolded e] mo pr wo' cou]
    have "sent_passwords (calls w') = sent_passwords (calls w) @ [Some s]"
    proof (cases err2)
      case None
      with eq run have "resourceMsSqlJobCredentialRead m d
          \<lparr>remote = r2, calls = calls w @ [GetCall ?cid, CreateOrUpdateCall ?cid ?payload]\<rparr> =
          (res, d', w')"
        by (simp add: Let_def)
      from Read_sent_passwords [OF this] show ?thesis
        by (simp only: sent_passwords_write pp world.simps)
    next
      case (Some e2)
      with eq run have "w' =
          \<lparr>remote = r2, calls = calls w @ [GetCall ?cid, CreateOrUpdateCall ?cid ?payload]\<rparr>"
        by (simp add: Let_def)
      then show ?thesis
        by (simp only: sent_passwords_write pp world.simps)
    qed
    then show ?thesis using Inr get e mo pr by simp
  qed
qed

lemma Update_GetWriteOnly:
  assumes flag: "\<not> HasChange d ''password_wo_version''"
    and run: "resourceMsSqlJobCredentialUpdate m d w = (res, d', w')"
  shows "resourceMsSqlJobCredentialUpdate m (d\<lparr>GetWriteOnly := g\<rparr>) w =
           (res, d'\<lparr>GetWriteOnly := g\<rparr>, w')"
proof (cases "ParseJobAgentID m (job_agent_id d)")
  case (Inl e)
  then show ?thesis using run by (simp add: resourceMsSqlJobCredentialUpdate_def)
next
  case (Inr jaId)
  let ?cid = "credential_of jaId (name d)"
  let ?d = "d\<lparr>GetWriteOnly := g\<rparr>"
  have Inr': "ParseJobAgentID m (job_agent_id ?d) = Inr jaId" using Inr by simp
  obtain existing err r1 where
    get: "Get (JobCredentialsClient m) ?cid (remote w) = ((existing, err), r1)"
    by (metis surj_pair)
  have get': "Get (JobCredentialsClient m) (credential_of jaId (name ?d)) (remote w) =
                ((existing, err), r1)"
    using get by simp
  show ?thesis
  proof (cases "err \<noteq> None \<or> Model existing = None \<or>
         (\<exists>model. Model existing = Some model \<and> Properties model = None)")
    case True
    from Update_fetch_failed [OF Inr get True] Update_fetch_failed [OF Inr' get' True] run
    show ?thesis by (simp split: option.splits)
  next
    case False
    then obtain model props where e: "err = None" and mo: "Model existing = Some model"
      and pr: "Properties model = Some props"
      by auto
    let ?payload = "model\<lparr>Properties := Some
              \<lparr>Username = (if HasChange d ''username'' then username d else Username props),
               Password = (case (if HasChange d ''password_wo_version'' then CtyNull
                                 else CtyNull) of
                             CtyString s \<Rightarrow> s
                           | CtyNull \<Rightarrow> (if HasChange d ''password'' then password d
                                          else Password props))\<rparr>\<rparr>"
    obtain err2 r2 where
      cou: "CreateOrUpdate (JobCredentialsClient m) ?cid ?payload r1 = (err2, r2)"
      by (metis surj_pair)
    have cou': "CreateOrUpdate (JobCredentialsClient m) (credential_of jaId (name ?d))
           (model\<lparr>Properties := Some
              \<lparr>Username = (if HasChange ?d ''username'' then username ?d else Username props),
               Password = (case (if HasChange ?d ''password_wo_version'' then CtyNull
                                 else CtyNull) of
                             CtyString s \<Rightarrow> s
                           | CtyNull \<Rightarrow> (if HasChange ?d ''password'' then password ?d
                                          else Password props))\<rparr>\<rparr>) r1 = (err2, r2)"
      by (cases "HasChange d ''username''"; cases "HasChange d ''password''")
         (use cou in simp_all)
    have wo: "HasChange d ''password_wo_version'' \<longrightarrow>
               GetWriteOnly d ''password_wo'' = Inr CtyNull"
      using flag by simp
    have wo': "HasChange ?d ''password_wo_version'' \<longrightarrow>
               GetWriteOnly ?d ''password_wo'' = Inr CtyNull"
      using flag by simp
    note eq = Update_fetched [OF Inr get [unfolded e] mo pr wo cou]
    note eq' = Update_fetched [OF Inr' get' [unfolded e] mo pr wo' cou']
    show ?thesis
    proof (cases err2)
      case None
      with eq run have "resourceMsSqlJobCredentialRead m d
          \<lparr>remote = r2, calls = calls w @ [GetCall ?cid, CreateOrUpdateCall ?cid ?payload]\<rparr> =
          (res, d', w')"
        by (simp add: Let_def)
      from Read_GetWriteOnly [OF this, of g] eq' None show ?thesis
        by (simp add: Let_def del: if_split cong: if_cong)
    next
      case (Some e2)
      with eq eq' run show ?thesis
        by (simp add: Let_def del: if_split cong: if_cong)
    qed
  qed
qed

subsection \<open>The paths through Create\<close>

lemma Create_lookup_not_absent:
  assumes "ParseJobAgentID m (job_agent_id d) = Inr jaId"
    and "Get (JobCredentialsClient m) (credential_of jaId (name d)) (remote w) =
           ((existing, err), r1)"
    and "\<not> WasNotFound (HttpResponse existing)"
  shows "resourceMsSqlJobCredentialCreate m d w =
           (Some (case err of
                    Some e \<Rightarrow> CheckingPresence (credential_of jaId (name d)) e
                  | None \<Rightarrow> ImportAsExistsError ''azurerm_mssql_job_credential''
                              (CredentialId_ID m (credential_of jaId (name d)))),
            d, \<lparr>remote = r1, calls = calls w @ [GetCall (credential_of jaId (name d))]\<rparr>)"
  using assms
  by (auto simp: resourceMsSqlJobCredentialCreate_def client_Get_eq Let_def)

lemma Create_write_only_error:
  assumes "ParseJobAgentID m (job_agent_id d) = Inr jaId"
    and "Get (JobCredentialsClient m) (credential_of jaId (name d)) (remote w) =
           ((existing, err), r1)"
    and "WasNotFound (HttpResponse existing)"
    and "GetWriteOnly d ''password_wo'' = Inl e"
  shows "resourceMsSqlJobCredentialCreate m d w =
           (Some (Passthrough e), d,
            \<lparr>remote = r1, calls = calls w @ [GetCall (credential_of jaId (name d))]\<rparr>)"
  using assms
  by (simp add: resourceMsSqlJobCredentialCreate_def client_Get_eq Let_def)

lemma Create_not_found:
  assumes "ParseJobAgentID m (job_agent_id d) = Inr jaId"
    and "Get (JobCredentialsClient m) (credential_of jaId (name d)) (remote w) =
           ((existing, err), r1)"
    and "WasNotFound (HttpResponse existing)"
    and "GetWriteOnly d ''password_wo'' = Inr v"
    and "CreateOrUpdate (JobCredentialsClient m) (credential_of jaId (name d))
           \<lparr>Id_jc = None, Name = Some (name d),
            Properties = Some \<lparr>Username = username d,
                               Password = (case v of CtyNull \<Rightarrow> password d
                                           | CtyString s \<Rightarrow> s)\<rparr>,
            Type_jc = None\<rparr> r1 = (err2, r2)"
  shows "resourceMsSqlJobCredentialCreate m d w =
     (let cid = credential_of jaId (name d);
          payload = \<lparr>Id_jc = None, Name = Some (name d),
                     Properties = Some \<lparr>Username = username d,
                                        Password = (case v of CtyNull \<Rightarrow> password d
                                                    | CtyString s \<Rightarrow> s)\<rparr>,
                     Type_jc = None\<rparr>;
          w2 = \<lparr>remote = r2, calls = calls w @ [GetCall cid, CreateOrUpdateCall cid payload]\<rparr>
      in case err2 of
           Some e \<Rightarrow> (Some (CreatingError cid e), d, w2)
         | None \<Rightarrow> resourceMsSqlJobCredentialRead m (d\<lparr>Id_d := CredentialId_ID m cid\<rparr>) w2)"
  using assms
  by (simp add: resourceMsSqlJobCredentialCreate_def client_Get_eq client_CreateOrUpdate_eq
        SetId_def Let_def NewCredentialID_def split: option.splits)

lemma Create_succeeded:
  assumes parse: "ParseJobAgentID m (job_agent_id d) = Inr jaId"
    and run: "resourceMsSqlJobCredentialCreate m d w = (None, d', w')"
  shows "\<exists>existing err r1 v r2.
           Get (JobCredentialsClient m) (credential_of jaId (name d)) (remote w) =
             ((existing, err), r1) \<and>
           CreateOrUpdate (JobCredentialsClient m) (credential_of jaId (name d))
             \<lparr>Id_jc = None, Name = Some (name d),
              Properties = Some \<lparr>Username = username d,
                                 Password = (case v of CtyNull \<Rightarrow> password d
                                             | CtyString s \<Rightarrow> s)\<rparr>,
              Type_jc = None\<rparr> r1 = (None, r2) \<and>
           (\<exists>cs. resourceMsSqlJobCredentialRead m
              (d\<lparr>Id_d := CredentialId_ID m (credential_of jaId (name d))\<rparr>)
              \<lparr>remote = r2, calls = cs\<rparr> = (None, d', w'))"
proof -
  let ?cid = "credential_of jaId (name d)"
  obtain existing err r1 where
    get: "Get (JobCredentialsClient m) ?cid (remote w) = ((existing, err), r1)"
    by (metis surj_pair)
  have nf: "WasNotFound (HttpResponse existing)"
    using Create_lookup_not_absent [OF parse get] run by auto
  obtain v where wo: "GetWriteOnly d ''password_wo'' = Inr v"
    using Create_write_only_error [OF parse get nf] run
    by (cases "GetWriteOnly d ''password_wo''") auto
  let ?payload = "\<lparr>Id_jc = None, Name = Some (name d),
              Properties = Some \<lparr>Username = username d,
                                 Password = (case v of CtyNull \<Rightarrow> password d
                                             | CtyString s \<Rightarrow> s)\<rparr>,
              Type_jc = None\<rparr>"
  obtain err2 r2 where
    cou: "CreateOrUpdate (JobCredentialsClient m) ?cid ?payload r1 = (err2, r2)"
    by (metis surj_pair)
  note eq = Create_not_found [OF parse get nf wo cou]
  have e2: "err2 = None"
    using eq run by (cases err2) (simp_all add: Let_def)
  have "resourceMsSqlJobCredentialRead m (d\<lparr>Id_d := CredentialId_ID m ?cid\<rparr>)
          \<lparr>remote = r2, calls = calls w @ [GetCall ?cid, CreateOrUpdateCall ?cid ?payload]\<rparr> =
        (None, d', w')"
    using eq run e2 by (simp add: Let_def)
  then show ?thesis using get cou e2 by blast
qed


subsection \<open>The concrete service, evaluated\<close>

lemma parse_agent1: "parse_job_agent_path (job_agent_path agent1) = Inr agent1"
  by (simp add: parse_job_agent_path_def job_agent_path_def agent1_def NewJobAgentID_def)

lemma parse_cred1: "parse_credential_path (credential_path cred1) = Inr cred1"
  by (simp add: parse_credential_path_def credential_path_def cred1_def NewCredentialID_def)

lemma parse_bogus:
  "parse_job_agent_path ''bogus'' = Inl ''parsing the job agent id''"
  "parse_credential_path ''bogus'' = Inl ''parsing the credential id''"
  by (simp_all add: parse_job_agent_path_def parse_credential_path_def)

lemma credential_of_agent1: "credential_of agent1 ''c'' = cred1"
  by (simp add: agent1_def cred1_def NewJobAgentID_def NewCredentialID_def)

lemma provider_simps:
  "JobCredentialsClient provider = azure_client"
  "ParseJobAgentID provider = parse_job_agent_path"
  "ParseCredentialID provider = parse_credential_path"
  "CredentialId_ID provider = credential_path"
  "JobAgentId_ID provider = job_agent_path"
  "Get azure_client = azure_Get"
  "CreateOrUpdate azure_client = azure_CreateOrUpdate"
  "Delete azure_client = azure_Delete"
  by (simp_all add: provider_def azure_client_def)

lemma config1_simps:
  "Id_d config1 = credential_path cred1"
  "name config1 = ''c''"
  "job_agent_id config1 = job_agent_path agent1"
  "username config1 = ''bob''"
  "password config1 = ''plain''"
  "HasChange config1 k = False"
  "GetWriteOnly config1 k = Inr CtyNull"
  by (simp_all add: config1_def)

lemma config_wo_simps:
  "Id_d config_wo = credential_path cred1"
  "name config_wo = ''c''"
  "job_agent_id config_wo = job_agent_path agent1"
  "username config_wo = ''bob''"
  "password config_wo = []"
  "HasChange config_wo k = (k = ''password_wo_version'')"
  "GetWriteOnly config_wo k = Inr (CtyString ''old'')"
  by (simp_all add: config_wo_def config1_def)

lemma config_drop_simps:
  "name config_drop = ''c''"
  "job_agent_id config_drop = job_agent_path agent1"
  "username config_drop = ''bob''"
  "password config_drop = ''plain''"
  "HasChange config_drop k = (k = ''password_wo_version'')"
  "GetWriteOnly config_drop k = Inr CtyNull"
  by (simp_all add: config_drop_def config1_def)

lemma config_switch_simps:
  "name config_switch = ''c''"
  "job_agent_id config_switch = job_agent_path agent1"
  "username config_switch = ''bob''"
  "password config_switch = ''plain''"
  "HasChange config_switch k = (k = ''password'' \<or> k = ''password_wo_version'')"
  "GetWriteOnly config_switch k = Inr CtyNull"
  by (simp_all add: config_switch_def config1_def)

lemma azure_Get_cred1:
  "azure_Get cred1 (remote world0) =
     ((\<lparr>HttpResponse = Some \<lparr>StatusCode = 404\<rparr>, Model = None\<rparr>, Some ''not found''),
      remote world0)"
  "azure_Get cred1 (remote world1) =
     ((\<lparr>HttpResponse = Some \<lparr>StatusCode = 200\<rparr>, Model = Some object1\<rparr>, None),
      remote world1)"
  "azure_Get cred1 (remote world_down) =
     ((\<lparr>HttpResponse = Some \<lparr>StatusCode = 503\<rparr>, Model = None\<rparr>,
       Some ''service unavailable''), remote world_down)"
  by (simp_all add: azure_Get_def world0_def world1_def world_down_def)

lemma parse_config1:
  "ParseJobAgentID provider (job_agent_id config1) = Inr agent1"
  "ParseCredentialID provider (Id_d config1) = Inr cred1"
  by (simp_all add: provider_simps config1_simps parse_agent1 parse_cred1)

lemma Get_config1:
  "Get (JobCredentialsClient provider) (credential_of agent1 (name config1)) (remote world0) =
     ((\<lparr>HttpResponse = Some \<lparr>StatusCode = 404\<rparr>, Model = None\<rparr>, Some ''not found''),
      remote world0)"
  "Get (JobCredentialsClient provider) (credential_of agent1 (name config1)) (remote world1) =
     ((\<lparr>HttpResponse = Some \<lparr>StatusCode = 200\<rparr>, Model = Some object1\<rparr>, None),
      remote world1)"
  "Get (JobCredentialsClient provider) (credential_of agent1 (name config1))
     (remote world_down) =
     ((\<lparr>HttpResponse = Some \<lparr>StatusCode = 503\<rparr>, Model = None\<rparr>,
       Some ''service unavailable''), remote world_down)"
  by (simp_all add: provider_simps config1_simps credential_of_agent1 azure_Get_cred1)

lemma Get_world_bare:
  "Get (JobCredentialsClient provider) (credential_of agent1 (name config1)) (remote world_bare) =
     ((\<lparr>HttpResponse = Some \<lparr>StatusCode = 200\<rparr>,
        Model = Some (object1\<lparr>Properties := None\<rparr>)\<rparr>, None), remote world_bare)"
  by (simp add: provider_simps config1_simps credential_of_agent1 azure_Get_def world_bare_def)

lemma provider_wo_simps:
  "JobCredentialsClient provider_wo = azure_wo_client"
  "ParseJobAgentID provider_wo = parse_job_agent_path"
  "ParseCredentialID provider_wo = parse_credential_path"
  "CredentialId_ID provider_wo = credential_path"
  "JobAgentId_ID provider_wo = job_agent_path"
  "Get azure_wo_client = azure_wo_Get"
  "CreateOrUpdate azure_wo_client = azure_CreateOrUpdate"
  "Delete azure_wo_client = azure_Delete"
  by (simp_all add: provider_wo_def provider_def azure_wo_client_def)

lemma azure_wo_store: "write_only_store azure_wo_client azure_objects"
  by (auto simp: write_only_store_def provider_wo_simps azure_wo_Get_def azure_Get_def
        azure_CreateOrUpdate_def azure_objects_def update_conv'
      split: if_splits option.splits)

lemmas service_defs =
  resourceMsSqlJobCredentialCreate_def resourceMsSqlJobCredentialUpdate_def
  resourceMsSqlJobCredentialRead_def resourceMsSqlJobCredentialDelete_def
  client_Get_def client_CreateOrUpdate_def client_Delete_def SetId_def Let_def
  provider_simps parse_job_agent_path_def parse_credential_path_def
  job_agent_path_def credential_path_def agent1_def cred1_def
  NewJobAgentID_def NewCredentialID_def
  azure_Get_def azure_CreateOrUpdate_def azure_Delete_def WasNotFound_def
  world0_def world1_def world_down_def world_bare_def

lemma Create_config1_world0:
  "resourceMsSqlJobCredentialCreate provider config1 world0 =
     (None, config1,
      \<lparr>remote = \<lparr>objects = [(cred1, payload1)], unavailable = False\<rparr>,
       calls = [GetCall cred1, CreateOrUpdateCall cred1 payload1, GetCall cred1]\<rparr>)"
  by (simp add: service_defs config1_def payload1_def)

lemma Create_config1_world1:
  "resourceMsSqlJobCredentialCreate provider config1 world1 =
     (Some (ImportAsExistsError ''azurerm_mssql_job_credential'' (credential_path cred1)),
      config1, \<lparr>remote = remote world1, calls = [GetCall cred1]\<rparr>)"
  by (simp add: service_defs config1_def object1_def)

lemma Create_config1_world_down:
  "resourceMsSqlJobCredentialCreate provider config1 world_down =
     (Some (CheckingPresence cred1 ''service unavailable''),
      config1, \<lparr>remote = remote world_down, calls = [GetCall cred1]\<rparr>)"
  by (simp add: service_defs config1_def object1_def)

lemma Update_config_wo_world1:
  "resourceMsSqlJobCredentialUpdate provider config_wo world1 =
     (None, config_wo\<lparr>username := ''alice''\<rparr>,
      \<lparr>remote = remote world1,
       calls = [GetCall cred1, CreateOrUpdateCall cred1 object1, GetCall cred1]\<rparr>)"
  by (simp add: service_defs config_wo_def config1_def object1_def)

lemma Update_config_rename_world1:
  "resourceMsSqlJobCredentialUpdate provider config_rename world1 =
     (None, config_rename,
      \<lparr>remote = \<lparr>objects = [(cred1, object1\<lparr>Properties :=
                    Some \<lparr>Username = ''bob'', Password = ''old''\<rparr>\<rparr>)], unavailable = False\<rparr>,
       calls = [GetCall cred1,
                CreateOrUpdateCall cred1 (object1\<lparr>Properties :=
                    Some \<lparr>Username = ''bob'', Password = ''old''\<rparr>\<rparr>),
                GetCall cred1]\<rparr>)"
  by (simp add: service_defs config_rename_def config1_def object1_def)

lemma Update_config_switch_world1:
  "resourceMsSqlJobCredentialUpdate provider config_switch world1 =
     (None, config_switch\<lparr>username := ''alice''\<rparr>,
      \<lparr>remote = \<lparr>objects = [(cred1, object1\<lparr>Properties :=
                    Some \<lparr>Username = ''alice'', Password = ''plain''\<rparr>\<rparr>)], unavailable = False\<rparr>,
       calls = [GetCall cred1,
                CreateOrUpdateCall cred1 (object1\<lparr>Properties :=
                    Some \<lparr>Username = ''alice'', Password = ''plain''\<rparr>\<rparr>),
                GetCall cred1]\<rparr>)"
  by (simp add: service_defs config_switch_def config1_def object1_def)

lemmas service_wo_defs =
  resourceMsSqlJobCredentialCreate_def resourceMsSqlJobCredentialUpdate_def
  resourceMsSqlJobCredentialRead_def
  client_Get_def client_CreateOrUpdate_def SetId_def Let_def
  provider_wo_simps parse_job_agent_path_def parse_credential_path_def
  job_agent_path_def credential_path_def agent1_def cred1_def
  NewJobAgentID_def NewCredentialID_def
  azure_wo_Get_def azure_Get_def azure_CreateOrUpdate_def withhold_password_def
  WasNotFound_def world0_def world1_def

lemma Update_wo_config_rename_world1:
  "resourceMsSqlJobCredentialUpdate provider_wo config_rename world1 =
     (None, config_rename,
      \<lparr>remote = \<lparr>objects = [(cred1, object1\<lparr>Properties :=
                    Some \<lparr>Username = ''bob'', Password = []\<rparr>\<rparr>)], unavailable = False\<rparr>,
       calls = [GetCall cred1,
                CreateOrUpdateCall cred1 (object1\<lparr>Properties :=
                    Some \<lparr>Username = ''bob'', Password = []\<rparr>\<rparr>),
                GetCall cred1]\<rparr>)"
  by (simp add: service_wo_defs config_rename_def config1_def object1_def)

lemma Create_wo_config1_world0:
  "resourceMsSqlJobCredentialCreate provider_wo config1 world0 =
     (None, config1,
      \<lparr>remote = \<lparr>objects = [(cred1, payload1)], unavailable = False\<rparr>,
       calls = [GetCall cred1, CreateOrUpdateCall cred1 payload1, GetCall cred1]\<rparr>)"
  by (simp add: service_wo_defs config1_def payload1_def)

lemma Read_wo_config1_created:
  "resourceMsSqlJobCredentialRead provider_wo config1
     \<lparr>remote = \<lparr>objects = [(cred1, payload1)], unavailable = False\<rparr>,
      calls = [GetCall cred1, CreateOrUpdateCall cred1 payload1, GetCall cred1]\<rparr> =
     (None, config1,
      \<lparr>remote = \<lparr>objects = [(cred1, payload1)], unavailable = False\<rparr>,
       calls = [GetCall cred1, CreateOrUpdateCall cred1 payload1, GetCall cred1,
                GetCall cred1]\<rparr>)"
  by (simp add: service_wo_defs config1_def payload1_def)

lemma Read_wo_config1_world1:
  "resourceMsSqlJobCredentialRead provider_wo config1 world1 =
     (None, config1\<lparr>username := ''alice''\<rparr>,
      \<lparr>remote = remote world1, calls = [GetCall cred1]\<rparr>)"
  by (simp add: service_wo_defs config1_def object1_def)

section \<open>The claims\<close>

text \<open>
  Claim C1.  Take an Update in which \<^verbatim>\<open>password_wo_version\<close> is flagged as changed and
  the write-only password is present, with value \<open>s\<close>.  Whatever the client does, the
  Update hands \<^verbatim>\<open>CreateOrUpdate\<close> either no payload or exactly one, whose password is
  \<open>s\<close>; and when the pre-update fetch succeeds with a model that has properties, it hands
  over exactly one, with password \<open>s\<close>.  Nothing compares \<open>s\<close> with an earlier value, so
  this holds also when \<open>s\<close> is the password already in place.  When
  \<^verbatim>\<open>password_wo_version\<close> is not flagged as changed the write-only value is not
  consulted: replacing what \<^verbatim>\<open>GetWriteOnly\<close> would give, even by an error, changes
  neither the result, nor the world, nor the rest of the resource data.
\<close>

theorem update_write_only_password_sent_once:
  "(HasChange d ''password_wo_version'' \<and>
    GetWriteOnly d ''password_wo'' = Inr (CtyString s) \<and>
    resourceMsSqlJobCredentialUpdate m d w = (res, d', w') \<longrightarrow>
      sent_passwords (calls w') = sent_passwords (calls w) \<or>
      sent_passwords (calls w') = sent_passwords (calls w) @ [Some s]) \<and>
   (HasChange d ''password_wo_version'' \<and>
    GetWriteOnly d ''password_wo'' = Inr (CtyString s) \<and>
    ParseJobAgentID m (job_agent_id d) = Inr jaId \<and>
    Get (JobCredentialsClient m) (credential_of jaId (name d)) (remote w) =
      ((existing, None), r1) \<and>
    Model existing = Some model \<and> Properties model = Some props \<and>
    resourceMsSqlJobCredentialUpdate m d w = (res, d', w') \<longrightarrow>
      sent_passwords (calls w') = sent_passwords (calls w) @ [Some s]) \<and>
   (\<not> HasChange d ''password_wo_version'' \<and>
    resourceMsSqlJobCredentialUpdate m d w = (res, d', w') \<longrightarrow>
      resourceMsSqlJobCredentialUpdate m (d\<lparr>GetWriteOnly := g\<rparr>) w =
        (res, d'\<lparr>GetWriteOnly := g\<rparr>, w'))"
proof (intro conjI impI; elim conjE)
  assume flag: "HasChange d ''password_wo_version''"
    and wo: "GetWriteOnly d ''password_wo'' = Inr (CtyString s)"
    and run: "resourceMsSqlJobCredentialUpdate m d w = (res, d', w')"
  show "sent_passwords (calls w') = sent_passwords (calls w) \<or>
        sent_passwords (calls w') = sent_passwords (calls w) @ [Some s]"
    using Update_write_only_sent [OF flag wo run]
    by (auto split: sum.splits prod.splits if_splits)
next
  assume flag: "HasChange d ''password_wo_version''"
    and wo: "GetWriteOnly d ''password_wo'' = Inr (CtyString s)"
    and parse: "ParseJobAgentID m (job_agent_id d) = Inr jaId"
    and get: "Get (JobCredentialsClient m) (credential_of jaId (name d)) (remote w) =
      ((existing, None), r1)"
    and model: "Model existing = Some model" and props: "Properties model = Some props"
    and run: "resourceMsSqlJobCredentialUpdate m d w = (res, d', w')"
  show "sent_passwords (calls w') = sent_passwords (calls w) @ [Some s]"
    using Update_write_only_sent [OF flag wo run] parse get model props by simp
next
  assume flag: "\<not> HasChange d ''password_wo_version''"
    and run: "resourceMsSqlJobCredentialUpdate m d w = (res, d', w')"
  show "resourceMsSqlJobCredentialUpdate m (d\<lparr>GetWriteOnly := g\<rparr>) w =
        (res, d'\<lparr>GetWriteOnly := g\<rparr>, w')"
    by (rule Update_GetWriteOnly [OF flag run])
qed

theorem update_write_only_password_sent_once_witness:
  "payload_password object1 = Some ''old'' \<and>
   GetWriteOnly config_wo ''password_wo'' = Inr (CtyString ''old'') \<and>
   sent_passwords (calls (snd (snd
     (resourceMsSqlJobCredentialUpdate provider config_wo world1)))) = [Some ''old''] \<and>
   resourceMsSqlJobCredentialUpdate provider
     (config_rename\<lparr>GetWriteOnly := broken_write_only\<rparr>) world1 =
     (None, config_rename\<lparr>GetWriteOnly := broken_write_only\<rparr>,
      snd (snd (resourceMsSqlJobCredentialUpdate provider config_rename world1)))"
proof -
  have f: "HasChange config_wo ''password_wo_version''"
    and v: "GetWriteOnly config_wo ''password_wo'' = Inr (CtyString ''old'')"
    and p: "ParseJobAgentID provider (job_agent_id config_wo) = Inr agent1"
    and g: "Get (JobCredentialsClient provider) (credential_of agent1 (name config_wo))
               (remote world1) =
       ((\<lparr>HttpResponse = Some \<lparr>StatusCode = 200\<rparr>, Model = Some object1\<rparr>, None),
        remote world1)"
    by (simp_all add: config_wo_simps provider_simps parse_agent1 credential_of_agent1
          azure_Get_cred1)
  have mo: "Model \<lparr>HttpResponse = Some \<lparr>StatusCode = 200\<rparr>, Model = Some object1\<rparr> =
              Some object1"
    by simp
  have pr: "Properties object1 = Some \<lparr>Username = ''alice'', Password = ''old''\<rparr>"
    by (simp add: object1_def)
  have nf: "\<not> HasChange config_rename ''password_wo_version''"
    by (simp add: config_rename_def config1_def)
  show ?thesis
    using update_write_only_password_sent_once
            [of config_wo "''old''" provider world1 None "config_wo\<lparr>username := ''alice''\<rparr>"
               "\<lparr>remote = remote world1,
                 calls = [GetCall cred1, CreateOrUpdateCall cred1 object1, GetCall cred1]\<rparr>"
               agent1 "\<lparr>HttpResponse = Some \<lparr>StatusCode = 200\<rparr>, Model = Some object1\<rparr>"
               "remote world1" object1 "\<lparr>Username = ''alice'', Password = ''old''\<rparr>"]
          update_write_only_password_sent_once
            [of config_rename "''old''" provider world1 None config_rename
               "snd (snd (resourceMsSqlJobCredentialUpdate provider config_rename world1))"
               agent1 "\<lparr>HttpResponse = Some \<lparr>StatusCode = 200\<rparr>, Model = Some object1\<rparr>"
               "remote world1" object1 "\<lparr>Username = ''alice'', Password = ''old''\<rparr>"
               broken_write_only]
          f v p g mo pr nf Update_config_wo_world1 Update_config_rename_world1
    by (simp add: sent_passwords_def payload_password_def)
qed

text \<open>
  Claim C2 says that an Update in which only \<^verbatim>\<open>username\<close> is flagged as changed leaves
  the password stored at the remote object as it was.  Update does try to: it sends back
  the model it fetched and replaces only the flagged fields.  But the fetched model has
  no password on the spec's remote, where Get withholds it, so the payload carries the
  empty password and the upsert stores it.  Here the credential holds \<open>''old''\<close> before
  the Update; the Update succeeds, sends one payload with the new username and the empty
  password, and the credential holds the empty password after.
\<close>

theorem update_username_only_blanks_password:
  "HasChange config_rename ''username'' \<and>
   \<not> HasChange config_rename ''password'' \<and>
   \<not> HasChange config_rename ''password_wo_version'' \<and>
   stored_password (azure_objects (remote world1)) cred1 = Some ''old'' \<and>
   resourceMsSqlJobCredentialUpdate provider_wo config_rename world1 =
     (None, config_rename,
      \<lparr>remote = \<lparr>objects = [(cred1, object1\<lparr>Properties :=
                    Some \<lparr>Username = ''bob'', Password = []\<rparr>\<rparr>)], unavailable = False\<rparr>,
       calls = [GetCall cred1,
                CreateOrUpdateCall cred1 (object1\<lparr>Properties :=
                    Some \<lparr>Username = ''bob'', Password = []\<rparr>\<rparr>),
                GetCall cred1]\<rparr>) \<and>
   stored_password (azure_objects (remote (snd (snd
     (resourceMsSqlJobCredentialUpdate provider_wo config_rename world1))))) cred1 = Some []"
proof -
  have flags: "HasChange config_rename ''username''"
    "\<not> HasChange config_rename ''password''"
    "\<not> HasChange config_rename ''password_wo_version''"
    by (simp_all add: config_rename_def config1_def)
  have before: "stored_password (azure_objects (remote world1)) cred1 = Some ''old''"
    by (simp add: stored_password_def azure_objects_def world1_def object1_def)
  have after: "stored_password (azure_objects
      \<lparr>objects = [(cred1, object1\<lparr>Properties :=
                    Some \<lparr>Username = ''bob'', Password = []\<rparr>\<rparr>)], unavailable = False\<rparr>) cred1 =
      Some []"
    by (simp add: stored_password_def azure_objects_def)
  show ?thesis
    using flags before after by (simp add: Update_wo_config_rename_world1)
qed

text \<open>
  Claim C3.  Create looks the constructed identifier up first.  When the lookup succeeds
  without a 404 (an object is there), Create fails with the import-as-exists error for
  \<^verbatim>\<open>azurerm_mssql_job_credential\<close> and the identifier, and the only call made is the
  \<^verbatim>\<open>Get\<close>: no \<^verbatim>\<open>CreateOrUpdate\<close>.  When the lookup fails with a response that is not a
  404, Create fails with the wrapped lookup error, again after the \<^verbatim>\<open>Get\<close> alone.  When
  the response is a 404, Create fails with neither of these errors and, given a
  write-only value, goes on to call \<^verbatim>\<open>CreateOrUpdate\<close> once.
\<close>

theorem create_existence_check:
  assumes "ParseJobAgentID m (job_agent_id d) = Inr jaId"
    and "Get (JobCredentialsClient m) (credential_of jaId (name d)) (remote w) =
           ((existing, err), r1)"
    and "resourceMsSqlJobCredentialCreate m d w = (res, d', w')"
  shows "(err = None \<and> \<not> WasNotFound (HttpResponse existing) \<longrightarrow>
            res = Some (ImportAsExistsError ''azurerm_mssql_job_credential''
                          (CredentialId_ID m (credential_of jaId (name d)))) \<and>
            d' = d \<and>
            w' = \<lparr>remote = r1, calls = calls w @ [GetCall (credential_of jaId (name d))]\<rparr> \<and>
            sent_payloads (calls w') = sent_payloads (calls w)) \<and>
         (\<forall>e. err = Some e \<and> \<not> WasNotFound (HttpResponse existing) \<longrightarrow>
            res = Some (CheckingPresence (credential_of jaId (name d)) e) \<and>
            d' = d \<and>
            w' = \<lparr>remote = r1, calls = calls w @ [GetCall (credential_of jaId (name d))]\<rparr> \<and>
            sent_payloads (calls w') = sent_payloads (calls w)) \<and>
         (WasNotFound (HttpResponse existing) \<longrightarrow>
            (\<forall>cid e. res \<noteq> Some (CheckingPresence cid e)) \<and>
            (\<forall>a b. res \<noteq> Some (ImportAsExistsError a b)) \<and>
            (\<forall>v. GetWriteOnly d ''password_wo'' = Inr v \<longrightarrow>
               (\<exists>p. sent_payloads (calls w') = sent_payloads (calls w) @ [p])))"
proof (intro conjI allI impI)
  assume nf: "WasNotFound (HttpResponse existing)"
  show "\<And>cid e. res \<noteq> Some (CheckingPresence cid e)"
    using assms nf
    by (auto simp: resourceMsSqlJobCredentialCreate_def client_Get_eq Let_def
          dest: Read_errors split: sum.splits prod.splits option.splits)
  show "\<And>a b. res \<noteq> Some (ImportAsExistsError a b)"
    using assms nf
    by (auto simp: resourceMsSqlJobCredentialCreate_def client_Get_eq Let_def
          dest: Read_errors split: sum.splits prod.splits option.splits)
  show "\<And>v. GetWriteOnly d ''password_wo'' = Inr v \<Longrightarrow>
          \<exists>p. sent_payloads (calls w') = sent_payloads (calls w) @ [p]"
    using assms nf
    by (auto simp: resourceMsSqlJobCredentialCreate_def client_Get_eq Let_def
          client_CreateOrUpdate_def sent_payloads_append
          dest!: Read_sent_payloads split: sum.splits prod.splits option.splits)
qed (use assms in \<open>auto simp: resourceMsSqlJobCredentialCreate_def client_Get_eq Let_def
       sent_payloads_append\<close>)

theorem create_existence_check_witness:
  "resourceMsSqlJobCredentialCreate provider config1 world1 =
     (Some (ImportAsExistsError ''azurerm_mssql_job_credential'' (credential_path cred1)),
      config1, \<lparr>remote = remote world1, calls = [GetCall cred1]\<rparr>) \<and>
   resourceMsSqlJobCredentialCreate provider config1 world_down =
     (Some (CheckingPresence cred1 ''service unavailable''),
      config1, \<lparr>remote = remote world_down, calls = [GetCall cred1]\<rparr>) \<and>
   sent_payloads (calls (snd (snd (resourceMsSqlJobCredentialCreate provider config1 world0)))) =
     [payload1]"
  using create_existence_check [OF parse_config1(1) Get_config1(2) Create_config1_world1]
        create_existence_check [OF parse_config1(1) Get_config1(3) Create_config1_world_down]
        create_existence_check [OF parse_config1(1) Get_config1(1) Create_config1_world0]
        Create_config1_world0 Create_config1_world1 Create_config1_world_down
  by (simp add: WasNotFound_def)

text \<open>
  Claim C4.  When Update's fetch of the remote object returns an error (of any kind, a
  404 included), or returns no model, or a model without properties, Update returns a
  fatal error saying which, the resource data is untouched and the only call made is the
  \<^verbatim>\<open>Get\<close>: no payload is sent to \<^verbatim>\<open>CreateOrUpdate\<close>.
\<close>

theorem update_fetch_failure_is_fatal:
  assumes "ParseJobAgentID m (job_agent_id d) = Inr jaId"
    and "Get (JobCredentialsClient m) (credential_of jaId (name d)) (remote w) = ((existing, err), r1)"
    and "err \<noteq> None \<or> Model existing = None \<or>
         (\<exists>model. Model existing = Some model \<and> Properties model = None)"
  shows "resourceMsSqlJobCredentialUpdate m d w =
           (Some (case err of
                    Some e \<Rightarrow> RetrievingError (credential_of jaId (name d)) e
                  | None \<Rightarrow> (case Model existing of
                               None \<Rightarrow> ModelWasNil (credential_of jaId (name d))
                             | Some model \<Rightarrow> PropertiesWasNil (credential_of jaId (name d)))),
            d, \<lparr>remote = r1, calls = calls w @ [GetCall (credential_of jaId (name d))]\<rparr>) \<and>
         sent_payloads (calls w @ [GetCall (credential_of jaId (name d))]) =
           sent_payloads (calls w)"
  using Update_fetch_failed [OF assms] by (simp add: sent_payloads_append)

theorem update_fetch_failure_is_fatal_witness:
  "resourceMsSqlJobCredentialUpdate provider config1 world0 =
     (Some (RetrievingError cred1 ''not found''), config1,
      \<lparr>remote = remote world0, calls = [GetCall cred1]\<rparr>) \<and>
   resourceMsSqlJobCredentialUpdate provider config1 world_bare =
     (Some (PropertiesWasNil cred1), config1,
      \<lparr>remote = remote world_bare, calls = [GetCall cred1]\<rparr>)"
  using update_fetch_failure_is_fatal [OF parse_config1(1) Get_config1(1)]
        update_fetch_failure_is_fatal [OF parse_config1(1) Get_world_bare]
  by (simp add: config1_simps credential_of_agent1 world0_def world_bare_def)

text \<open>
  Claim C5.  Read parses the stored id and fetches the object.  When the fetch fails and
  its response was a 404, Read sets the stored id to the empty string, changes nothing
  else in the resource data, makes no other call and returns no error; when the fetch
  fails with any other response, Read returns the error, wrapped, and leaves the resource
  data as it was.
\<close>

theorem read_not_found_clears_id:
  assumes "ParseCredentialID m (Id_d d) = Inr cid"
    and "Get (JobCredentialsClient m) cid (remote w) = ((resp, Some e), r1)"
  shows "resourceMsSqlJobCredentialRead m d w =
           (if WasNotFound (HttpResponse resp)
            then (None, d\<lparr>Id_d := []\<rparr>, \<lparr>remote = r1, calls = calls w @ [GetCall cid]\<rparr>)
            else (Some (ReadingError cid e), d, \<lparr>remote = r1, calls = calls w @ [GetCall cid]\<rparr>))"
  using assms
  by (simp add: resourceMsSqlJobCredentialRead_def client_Get_eq SetId_def)

theorem read_not_found_clears_id_witness:
  "resourceMsSqlJobCredentialRead provider config1 world0 =
     (None, config1\<lparr>Id_d := []\<rparr>, \<lparr>remote = remote world0, calls = [GetCall cred1]\<rparr>) \<and>
   resourceMsSqlJobCredentialRead provider config1 world_down =
     (Some (ReadingError cred1 ''service unavailable''), config1,
      \<lparr>remote = remote world_down, calls = [GetCall cred1]\<rparr>)"
proof -
  have p: "ParseCredentialID provider (Id_d config1) = Inr cred1"
    by (simp add: provider_simps config1_simps parse_cred1)
  have g0: "Get (JobCredentialsClient provider) cred1 (remote world0) =
      ((\<lparr>HttpResponse = Some \<lparr>StatusCode = 404\<rparr>, Model = None\<rparr>, Some ''not found''),
       remote world0)"
    by (simp add: provider_simps azure_Get_cred1)
  have g1: "Get (JobCredentialsClient provider) cred1 (remote world_down) =
      ((\<lparr>HttpResponse = Some \<lparr>StatusCode = 503\<rparr>, Model = None\<rparr>,
        Some ''service unavailable''), remote world_down)"
    by (simp add: provider_simps azure_Get_cred1)
  show ?thesis
    using read_not_found_clears_id [OF p g0] read_not_found_clears_id [OF p g1]
    by (simp add: WasNotFound_def world0_def world_down_def)
qed

text \<open>
  Claim C6.  Whatever error the remote delete call returns, not-found included (the
  response is not even looked at), Delete returns it wrapped as a fatal error, with the
  resource data untouched; and Delete returns no error only when the remote delete call
  returned none.
\<close>

theorem delete_failure_is_fatal:
  "(ParseCredentialID m (Id_d d) = Inr cid \<and>
    Delete (JobCredentialsClient m) cid (remote w) = (Some e, r1) \<longrightarrow>
      resourceMsSqlJobCredentialDelete m d w =
        (Some (DeletingError cid e), d, \<lparr>remote = r1, calls = calls w @ [DeleteCall cid]\<rparr>)) \<and>
   (ParseCredentialID m (Id_d d) = Inr cid \<and>
    resourceMsSqlJobCredentialDelete m d w = (None, d', w') \<longrightarrow>
      fst (Delete (JobCredentialsClient m) cid (remote w)) = None)"
  by (auto simp: resourceMsSqlJobCredentialDelete_def client_Delete_def
           split: sum.splits prod.splits option.splits)

theorem delete_failure_is_fatal_witness:
  "resourceMsSqlJobCredentialDelete provider config1 world0 =
     (Some (DeletingError cred1 ''not found''), config1,
      \<lparr>remote = remote world0, calls = [DeleteCall cred1]\<rparr>) \<and>
   resourceMsSqlJobCredentialDelete provider config1 world1 =
     (None, config1, \<lparr>remote = remote world0, calls = [DeleteCall cred1]\<rparr>) \<and>
   fst (Delete (JobCredentialsClient provider) cred1 (remote world1)) = None"
proof -
  have p: "ParseCredentialID provider (Id_d config1) = Inr cred1"
    by (simp add: provider_simps config1_simps parse_cred1)
  have g0: "Delete (JobCredentialsClient provider) cred1 (remote world0) =
      (Some ''not found'', remote world0)"
    by (simp add: provider_simps azure_Delete_def world0_def)
  have r1: "resourceMsSqlJobCredentialDelete provider config1 world1 =
     (None, config1, \<lparr>remote = remote world0, calls = [DeleteCall cred1]\<rparr>)"
    by (simp add: resourceMsSqlJobCredentialDelete_def client_Delete_def provider_simps
          config1_simps parse_cred1 azure_Delete_def world1_def world0_def)
  show ?thesis
    using delete_failure_is_fatal [of provider config1 cred1 world0 "''not found''"
            "remote world0" config1 "\<lparr>remote = remote world0, calls = [DeleteCall cred1]\<rparr>"]
          delete_failure_is_fatal [of provider config1 cred1 world1 "''not found''"
            "remote world0" config1 "\<lparr>remote = remote world0, calls = [DeleteCall cred1]\<rparr>"]
          p g0 r1
    by (simp add: world0_def)
qed

text \<open>
  Claim C7.  On the spec's remote store (an upsert store whose Get withholds the
  password), and with an identifier that the parser reads back as itself, a Create that
  returns no error (its last step is a Read) leaves the local \<^verbatim>\<open>username\<close> equal to the
  one supplied; and while the stored id is still the constructed one, a further Read
  leaves it so too.  For every client, Read leaves the \<^verbatim>\<open>password\<close> attribute and the
  write-only \<^verbatim>\<open>password_wo\<close> value as they were: the password is never read back.
\<close>

theorem create_then_read_username:
  "(write_only_store (JobCredentialsClient m) stored \<and>
    ParseJobAgentID m (job_agent_id d) = Inr jaId \<and>
    (\<forall>cid'. ParseCredentialID m (CredentialId_ID m (credential_of jaId (name d))) = Inr cid'
        \<longrightarrow> cid' = credential_of jaId (name d)) \<and>
    resourceMsSqlJobCredentialCreate m d w = (None, d', w') \<longrightarrow>
      username d' = username d \<and>
      (Id_d d' = CredentialId_ID m (credential_of jaId (name d)) \<and>
       resourceMsSqlJobCredentialRead m d' w' = (res, d'', w'') \<longrightarrow>
         username d'' = username d)) \<and>
   (resourceMsSqlJobCredentialRead m d0 w0 = (res0, d1, w1) \<longrightarrow>
      password d1 = password d0 \<and> GetWriteOnly d1 = GetWriteOnly d0)"
proof (intro conjI impI; (elim conjE)?)
  assume run0: "resourceMsSqlJobCredentialRead m d0 w0 = (res0, d1, w1)"
  from Read_frame [OF run0] show "password d1 = password d0" by simp
  from Read_frame [OF run0] show "GetWriteOnly d1 = GetWriteOnly d0" by simp
next
  assume store: "write_only_store (JobCredentialsClient m) stored"
    and parse: "ParseJobAgentID m (job_agent_id d) = Inr jaId"
    and rt: "\<forall>cid'. ParseCredentialID m (CredentialId_ID m (credential_of jaId (name d))) =
                Inr cid' \<longrightarrow> cid' = credential_of jaId (name d)"
    and run: "resourceMsSqlJobCredentialCreate m d w = (None, d', w')"
  let ?cid = "credential_of jaId (name d)"
  let ?d = "d\<lparr>Id_d := CredentialId_ID m ?cid\<rparr>"
  from Create_succeeded [OF parse run] obtain existing err r1 v r2 cs where
    get: "Get (JobCredentialsClient m) ?cid (remote w) = ((existing, err), r1)"
    and cou: "CreateOrUpdate (JobCredentialsClient m) ?cid
             \<lparr>Id_jc = None, Name = Some (name d),
              Properties = Some \<lparr>Username = username d,
                                 Password = (case v of CtyNull \<Rightarrow> password d
                                             | CtyString s \<Rightarrow> s)\<rparr>,
              Type_jc = None\<rparr> r1 = (None, r2)"
    and rd: "resourceMsSqlJobCredentialRead m ?d \<lparr>remote = r2, calls = cs\<rparr> = (None, d', w')"
    by blast
  let ?payload = "\<lparr>Id_jc = None, Name = Some (name d),
              Properties = Some \<lparr>Username = username d,
                                 Password = (case v of CtyNull \<Rightarrow> password d
                                             | CtyString s \<Rightarrow> s)\<rparr>,
              Type_jc = None\<rparr>"
  have found: "stored r2 ?cid = Some ?payload"
    using store cou unfolding write_only_store_def by (metis fun_upd_same)
  have pid: "ParseCredentialID m (Id_d ?d) = Inr ?cid"
  proof (cases "ParseCredentialID m (Id_d ?d)")
    case (Inl e)
    from Read_parse_error [OF this] rd show ?thesis by simp
  next
    case (Inr cid')
    with rt show ?thesis by simp
  qed
  have first: "username d' = username ?d \<and> stored (remote w') = stored r2"
    using Read_username_stored [OF store pid _ _ _ rd, of ?payload] found by simp
  then show "username d' = username d" by simp
  assume id: "Id_d d' = CredentialId_ID m ?cid"
    and rd2: "resourceMsSqlJobCredentialRead m d' w' = (res, d'', w'')"
  have pid2: "ParseCredentialID m (Id_d d') = Inr ?cid"
    using pid id by simp
  have found2: "stored (remote w') ?cid = Some ?payload"
    using first found by simp
  have "username d'' = username d'"
    using Read_username_stored [OF store pid2 found2 _ _ rd2] first by simp
  with first show "username d'' = username d" by simp
qed

theorem create_then_read_username_witness:
  "username config1 = ''bob'' \<and>
   username (fst (snd (resourceMsSqlJobCredentialCreate provider_wo config1 world0))) =
     ''bob'' \<and>
   username (fst (snd (resourceMsSqlJobCredentialRead provider_wo
     (fst (snd (resourceMsSqlJobCredentialCreate provider_wo config1 world0)))
     (snd (snd (resourceMsSqlJobCredentialCreate provider_wo config1 world0)))))) = ''bob'' \<and>
   payload_password object1 = Some ''old'' \<and>
   password (fst (snd (resourceMsSqlJobCredentialRead provider_wo config1 world1))) = ''plain''"
proof -
  have s: "write_only_store (JobCredentialsClient provider_wo) azure_objects"
    by (simp add: provider_wo_simps azure_wo_store)
  have p: "ParseJobAgentID provider_wo (job_agent_id config1) = Inr agent1"
    by (simp add: provider_wo_simps config1_simps parse_agent1)
  have rt: "\<forall>cid'. ParseCredentialID provider_wo
               (CredentialId_ID provider_wo (credential_of agent1 (name config1))) = Inr cid'
             \<longrightarrow> cid' = credential_of agent1 (name config1)"
    by (simp add: provider_wo_simps config1_simps credential_of_agent1 parse_cred1)
  have id: "Id_d config1 = CredentialId_ID provider_wo (credential_of agent1 (name config1))"
    by (simp add: provider_wo_simps config1_simps credential_of_agent1)
  show ?thesis
    using create_then_read_username
            [of provider_wo azure_objects config1 agent1 world0 config1
               "\<lparr>remote = \<lparr>objects = [(cred1, payload1)], unavailable = False\<rparr>,
                 calls = [GetCall cred1, CreateOrUpdateCall cred1 payload1, GetCall cred1]\<rparr>"
               None config1
               "\<lparr>remote = \<lparr>objects = [(cred1, payload1)], unavailable = False\<rparr>,
                 calls = [GetCall cred1, CreateOrUpdateCall cred1 payload1, GetCall cred1,
                          GetCall cred1]\<rparr>"
               config1 world1 None "config1\<lparr>username := ''alice''\<rparr>"
               "\<lparr>remote = remote world1, calls = [GetCall cred1]\<rparr>"]
          s rt id p Create_wo_config1_world0 Read_wo_config1_created
          Read_wo_config1_world1
    by (simp add: config1_simps payload_password_def object1_def)
qed

text \<open>
  Claim C8.  Once the existence check has passed (the lookup's response was a 404),
  Create sends one payload to \<^verbatim>\<open>CreateOrUpdate\<close>, under the constructed identifier,
  with the configured username and with the password taken from the plain
  \<^verbatim>\<open>password\<close> attribute when the write-only value is null and from the write-only
  value otherwise.  When that call fails Create returns the wrapped error; when it
  succeeds Create stores the identifier as the id and its result is that of Read, run on
  the resource data with the id set.
\<close>

theorem create_effective_password:
  assumes "ParseJobAgentID m (job_agent_id d) = Inr jaId"
    and "Get (JobCredentialsClient m) (credential_of jaId (name d)) (remote w) =
           ((existing, err), r1)"
    and "WasNotFound (HttpResponse existing)"
    and "GetWriteOnly d ''password_wo'' = Inr v"
    and "CreateOrUpdate (JobCredentialsClient m) (credential_of jaId (name d))
           \<lparr>Id_jc = None, Name = Some (name d),
            Properties = Some \<lparr>Username = username d,
                               Password = (case v of CtyNull \<Rightarrow> password d
                                           | CtyString s \<Rightarrow> s)\<rparr>,
            Type_jc = None\<rparr> r1 = (err2, r2)"
  shows "resourceMsSqlJobCredentialCreate m d w =
     (let cid = credential_of jaId (name d);
          payload = \<lparr>Id_jc = None, Name = Some (name d),
                     Properties = Some \<lparr>Username = username d,
                                        Password = (case v of CtyNull \<Rightarrow> password d
                                                    | CtyString s \<Rightarrow> s)\<rparr>,
                     Type_jc = None\<rparr>;
          w2 = \<lparr>remote = r2, calls = calls w @ [GetCall cid, CreateOrUpdateCall cid payload]\<rparr>
      in case err2 of
           Some e \<Rightarrow> (Some (CreatingError cid e), d, w2)
         | None \<Rightarrow> resourceMsSqlJobCredentialRead m (SetId d (CredentialId_ID m cid)) w2)"
  using assms
  by (simp add: resourceMsSqlJobCredentialCreate_def client_Get_eq client_CreateOrUpdate_eq
        Let_def NewCredentialID_def split: option.splits)

theorem create_effective_password_witness:
  "resourceMsSqlJobCredentialCreate provider config1 world0 =
     resourceMsSqlJobCredentialRead provider (SetId config1 (credential_path cred1))
       \<lparr>remote = \<lparr>objects = [(cred1, payload1)], unavailable = False\<rparr>,
        calls = [GetCall cred1, CreateOrUpdateCall cred1 payload1]\<rparr> \<and>
   payload_password payload1 = Some (password config1) \<and>
   resourceMsSqlJobCredentialCreate provider config_wo world0 =
     resourceMsSqlJobCredentialRead provider (SetId config_wo (credential_path cred1))
       \<lparr>remote = \<lparr>objects = [(cred1, payload1\<lparr>Properties :=
                     Some \<lparr>Username = ''bob'', Password = ''old''\<rparr>\<rparr>)], unavailable = False\<rparr>,
        calls = [GetCall cred1, CreateOrUpdateCall cred1 (payload1\<lparr>Properties :=
                     Some \<lparr>Username = ''bob'', Password = ''old''\<rparr>\<rparr>)]\<rparr>"
proof -
  have nf: "WasNotFound (HttpResponse \<lparr>HttpResponse = Some \<lparr>StatusCode = 404\<rparr>, Model = None\<rparr>)"
    by (simp add: WasNotFound_def)
  have w1: "GetWriteOnly config1 ''password_wo'' = Inr CtyNull"
    by (simp add: config1_simps)
  have w2: "GetWriteOnly config_wo ''password_wo'' = Inr (CtyString ''old'')"
    by (simp add: config_wo_simps)
  have p2: "ParseJobAgentID provider (job_agent_id config_wo) = Inr agent1"
    by (simp add: provider_simps config_wo_simps parse_agent1)
  have g2: "Get (JobCredentialsClient provider) (credential_of agent1 (name config_wo))
              (remote world0) =
     ((\<lparr>HttpResponse = Some \<lparr>StatusCode = 404\<rparr>, Model = None\<rparr>, Some ''not found''),
      remote world0)"
    by (simp add: provider_simps config_wo_simps credential_of_agent1 azure_Get_cred1)
  have c1: "CreateOrUpdate (JobCredentialsClient provider) (credential_of agent1 (name config1))
           \<lparr>Id_jc = None, Name = Some (name config1),
            Properties = Some \<lparr>Username = username config1,
                               Password = (case CtyNull of CtyNull \<Rightarrow> password config1
                                           | CtyString s \<Rightarrow> s)\<rparr>,
            Type_jc = None\<rparr> (remote world0) =
           (None, \<lparr>objects = [(cred1, payload1)], unavailable = False\<rparr>)"
    by (simp add: provider_simps config1_simps credential_of_agent1 azure_CreateOrUpdate_def
          world0_def payload1_def)
  have c2: "CreateOrUpdate (JobCredentialsClient provider) (credential_of agent1 (name config_wo))
           \<lparr>Id_jc = None, Name = Some (name config_wo),
            Properties = Some \<lparr>Username = username config_wo,
                               Password = (case CtyString ''old'' of
                                             CtyNull \<Rightarrow> password config_wo
                                           | CtyString s \<Rightarrow> s)\<rparr>,
            Type_jc = None\<rparr> (remote world0) =
           (None, \<lparr>objects = [(cred1, payload1\<lparr>Properties :=
                     Some \<lparr>Username = ''bob'', Password = ''old''\<rparr>\<rparr>)], unavailable = False\<rparr>)"
    by (simp add: provider_simps config_wo_simps credential_of_agent1 azure_CreateOrUpdate_def
          world0_def payload1_def)
  show ?thesis
    using create_effective_password [OF parse_config1(1) Get_config1(1) nf w1 c1]
          create_effective_password [OF p2 g2 nf w2 c2]
    by (simp add: config1_simps config_wo_simps credential_of_agent1 provider_simps
          payload1_def payload_password_def world0_def)
qed

text \<open>
  Claim C9.  Create and Update start by parsing the parent job agent id, Read and Delete
  by parsing the stored credential id.  When that parse fails the operation returns the
  parse error as it is, the call log and the remote state are what they were (no
  \<^verbatim>\<open>Get\<close>, \<^verbatim>\<open>CreateOrUpdate\<close> or \<^verbatim>\<open>Delete\<close> was made), and so is the resource data.
\<close>

theorem parse_failure_aborts_before_remote_calls:
  "(ParseJobAgentID m (job_agent_id d) = Inl err \<longrightarrow>
      resourceMsSqlJobCredentialCreate m d w = (Some (Passthrough err), d, w)) \<and>
   (ParseJobAgentID m (job_agent_id d) = Inl err \<longrightarrow>
      resourceMsSqlJobCredentialUpdate m d w = (Some (Passthrough err), d, w)) \<and>
   (ParseCredentialID m (Id_d d) = Inl err \<longrightarrow>
      resourceMsSqlJobCredentialRead m d w = (Some (Passthrough err), d, w)) \<and>
   (ParseCredentialID m (Id_d d) = Inl err \<longrightarrow>
      resourceMsSqlJobCredentialDelete m d w = (Some (Passthrough err), d, w))"
  by (simp add: resourceMsSqlJobCredentialCreate_def resourceMsSqlJobCredentialUpdate_def
        resourceMsSqlJobCredentialRead_def resourceMsSqlJobCredentialDelete_def)

theorem parse_failure_aborts_before_remote_calls_witness:
  "resourceMsSqlJobCredentialCreate provider config_bad world1 =
     (Some (Passthrough ''parsing the job agent id''), config_bad, world1) \<and>
   resourceMsSqlJobCredentialUpdate provider config_bad world1 =
     (Some (Passthrough ''parsing the job agent id''), config_bad, world1) \<and>
   resourceMsSqlJobCredentialRead provider config_bad world1 =
     (Some (Passthrough ''parsing the credential id''), config_bad, world1) \<and>
   resourceMsSqlJobCredentialDelete provider config_bad world1 =
     (Some (Passthrough ''parsing the credential id''), config_bad, world1)"
proof -
  have a: "ParseJobAgentID provider (job_agent_id config_bad) = Inl ''parsing the job agent id''"
    by (simp add: provider_simps config_bad_def parse_bogus)
  have c: "ParseCredentialID provider (Id_d config_bad) = Inl ''parsing the credential id''"
    by (simp add: provider_simps config_bad_def parse_bogus)
  show ?thesis
    using parse_failure_aborts_before_remote_calls
            [of provider config_bad "''parsing the job agent id''" world1]
          parse_failure_aborts_before_remote_calls
            [of provider config_bad "''parsing the credential id''" world1] a c
    by simp
qed

text \<open>
  Claim C10 says that an Update with \<^verbatim>\<open>password_wo_version\<close> flagged as changed and a
  null write-only value always sends the password that the pre-update fetch returned.
  It does not when \<^verbatim>\<open>password\<close> is flagged as changed as well, as when a configuration
  moves from the write-only attribute to the plain one: the remote object holds
  \<open>''old''\<close>, the fetch returns it, and the payload carries the plain \<open>''plain''\<close>.
\<close>

theorem update_null_write_only_counterexample:
  "HasChange config_switch ''password_wo_version'' \<and>
   GetWriteOnly config_switch ''password_wo'' = Inr CtyNull \<and>
   ParseJobAgentID provider (job_agent_id config_switch) = Inr agent1 \<and>
   Get (JobCredentialsClient provider) (credential_of agent1 (name config_switch))
     (remote world1) =
     ((\<lparr>HttpResponse = Some \<lparr>StatusCode = 200\<rparr>, Model = Some object1\<rparr>, None),
      remote world1) \<and>
   payload_password object1 = Some ''old'' \<and>
   fst (resourceMsSqlJobCredentialUpdate provider config_switch world1) = None \<and>
   sent_passwords (calls (snd (snd
     (resourceMsSqlJobCredentialUpdate provider config_switch world1)))) = [Some ''plain''] \<and>
   sent_passwords (calls (snd (snd
     (resourceMsSqlJobCredentialUpdate provider config_switch world1)))) \<noteq>
     [payload_password object1]"
  by (simp add: Update_config_switch_world1 config_switch_simps provider_simps parse_agent1
        credential_of_agent1 azure_Get_cred1 payload_password_def sent_passwords_def
        object1_def)

text \<open>
  Claim C10, amended.  Take an Update with \<^verbatim>\<open>password_wo_version\<close> flagged as changed
  and a null write-only value, whose pre-update fetch succeeds with a model that has
  properties.  The null value is no error and no password comes from the write-only
  channel: the payload sent to \<^verbatim>\<open>CreateOrUpdate\<close> carries the plain \<^verbatim>\<open>password\<close>
  attribute when \<^verbatim>\<open>password\<close> is flagged as changed too, and otherwise the password the
  fetch returned.  Update then returns the wrapped error of \<^verbatim>\<open>CreateOrUpdate\<close> if it
  fails, and the result of Read otherwise.
\<close>

theorem update_null_write_only_keeps_password:
  assumes "HasChange d ''password_wo_version''"
    and "GetWriteOnly d ''password_wo'' = Inr CtyNull"
    and "ParseJobAgentID m (job_agent_id d) = Inr jaId"
    and "Get (JobCredentialsClient m) (credential_of jaId (name d)) (remote w) =
           ((existing, None), r1)"
    and "Model existing = Some model"
    and "Properties model = Some props"
    and "CreateOrUpdate (JobCredentialsClient m) (credential_of jaId (name d))
           (model\<lparr>Properties := Some
              \<lparr>Username = (if HasChange d ''username'' then username d else Username props),
               Password = (if HasChange d ''password'' then password d
                           else Password props)\<rparr>\<rparr>) r1 = (err2, r2)"
  shows "resourceMsSqlJobCredentialUpdate m d w =
     (let cid = credential_of jaId (name d);
          payload = model\<lparr>Properties := Some
              \<lparr>Username = (if HasChange d ''username'' then username d else Username props),
               Password = (if HasChange d ''password'' then password d
                           else Password props)\<rparr>\<rparr>;
          w2 = \<lparr>remote = r2, calls = calls w @ [GetCall cid, CreateOrUpdateCall cid payload]\<rparr>
      in case err2 of
           Some e \<Rightarrow> (Some (UpdatingError cid e), d, w2)
         | None \<Rightarrow> resourceMsSqlJobCredentialRead m d w2)"
  using Update_fetched [of m d jaId w existing r1 model props CtyNull err2 r2] assms
  by simp

theorem update_null_write_only_keeps_password_witness:
  "resourceMsSqlJobCredentialUpdate provider config_drop world1 =
     resourceMsSqlJobCredentialRead provider config_drop
       \<lparr>remote = remote world1,
        calls = [GetCall cred1, CreateOrUpdateCall cred1 object1]\<rparr> \<and>
   resourceMsSqlJobCredentialUpdate provider config_switch world1 =
     resourceMsSqlJobCredentialRead provider config_switch
       \<lparr>remote = \<lparr>objects = [(cred1, object1\<lparr>Properties :=
                     Some \<lparr>Username = ''alice'', Password = ''plain''\<rparr>\<rparr>)],
                  unavailable = False\<rparr>,
        calls = [GetCall cred1, CreateOrUpdateCall cred1 (object1\<lparr>Properties :=
                     Some \<lparr>Username = ''alice'', Password = ''plain''\<rparr>\<rparr>)]\<rparr>"
proof -
  have f1: "HasChange config_drop ''password_wo_version''"
    and n1: "GetWriteOnly config_drop ''password_wo'' = Inr CtyNull"
    and p1: "ParseJobAgentID provider (job_agent_id config_drop) = Inr agent1"
    and g1: "Get (JobCredentialsClient provider) (credential_of agent1 (name config_drop))
               (remote world1) =
       ((\<lparr>HttpResponse = Some \<lparr>StatusCode = 200\<rparr>, Model = Some object1\<rparr>, None),
        remote world1)"
    by (simp_all add: config_drop_simps provider_simps parse_agent1 credential_of_agent1
          azure_Get_cred1)
  have f2: "HasChange config_switch ''password_wo_version''"
    and n2: "GetWriteOnly config_switch ''password_wo'' = Inr CtyNull"
    and p2: "ParseJobAgentID provider (job_agent_id config_switch) = Inr agent1"
    and g2: "Get (JobCredentialsClient provider) (credential_of agent1 (name config_switch))
               (remote world1) =
       ((\<lparr>HttpResponse = Some \<lparr>StatusCode = 200\<rparr>, Model = Some object1\<rparr>, None),
        remote world1)"
    by (simp_all add: config_switch_simps provider_simps parse_agent1 credential_of_agent1
          azure_Get_cred1)
  have mo: "Model \<lparr>HttpResponse = Some \<lparr>StatusCode = 200\<rparr>, Model = Some object1\<rparr> =
              Some object1"
    by simp
  have pr: "Properties object1 = Some \<lparr>Username = ''alice'', Password = ''old''\<rparr>"
    by (simp add: object1_def)
  have c1: "CreateOrUpdate (JobCredentialsClient provider)
           (credential_of agent1 (name config_drop))
           (object1\<lparr>Properties := Some
              \<lparr>Username = (if HasChange config_drop ''username'' then username config_drop
                            else Username \<lparr>Username = ''alice'', Password = ''old''\<rparr>),
               Password = (if HasChange config_drop ''password'' then password config_drop
                           else Password \<lparr>Username = ''alice'', Password = ''old''\<rparr>)\<rparr>\<rparr>)
           (remote world1) = (None, remote world1)"
    by (simp add: config_drop_simps provider_simps credential_of_agent1
          azure_CreateOrUpdate_def world1_def object1_def)
  have c2: "CreateOrUpdate (JobCredentialsClient provider)
           (credential_of agent1 (name config_switch))
           (object1\<lparr>Properties := Some
              \<lparr>Username = (if HasChange config_switch ''username'' then username config_switch
                            else Username \<lparr>Username = ''alice'', Password = ''old''\<rparr>),
               Password = (if HasChange config_switch ''password'' then password config_switch
                           else Password \<lparr>Username = ''alice'', Password = ''old''\<rparr>)\<rparr>\<rparr>)
           (remote world1) =
           (None, \<lparr>objects = [(cred1, object1\<lparr>Properties :=
                     Some \<lparr>Username = ''alice'', Password = ''plain''\<rparr>\<rparr>)],
                   unavailable = False\<rparr>)"
    by (simp add: config_switch_simps provider_simps credential_of_agent1
          azure_CreateOrUpdate_def world1_def object1_def)
  show ?thesis
    using update_null_write_only_keeps_password [OF f1 n1 p1 g1 mo pr c1]
          update_null_write_only_keeps_password [OF f2 n2 p2 g2 mo pr c2]
    by (simp add: config_drop_simps config_switch_simps credential_of_agent1 world1_def
          object1_def)
qed

end
